theory Spec2Isabelle
  imports Complex_Main
begin

section \<open>Dense vectors\<close>

text \<open>
  The solver of \<^verbatim>\<open>include/qp/proxqp/solver_sparse.hpp\<close> is generic in its scalar type
  \<open>T\<close>. The scalars are modelled by the real numbers: arithmetic is exact, there is no
  rounding and no overflow. The one place where the IEEE special values decide what the
  code does, the quotients of the line search, is modelled with them (type \<open>fl\<close> below).
  A dense vector (\<open>Eigen::Matrix<T, -1, 1>\<close>) is a list of reals; the coefficient-wise
  operations of Eigen require operands of one size, and are written with \<open>map2\<close>.
\<close>

type_synonym vec = "real list"

text \<open>
  Modelled from the spec: \<open>infty_norm\<close> (\<^verbatim>\<open>qp/views.hpp\<close> is not among the sources),
  the infinity norm of a dense vector, 0 for the empty vector.
\<close>

fun infty_norm :: "vec \<Rightarrow> real" where
  "infty_norm [] = 0"
| "infty_norm (a # v) = max \<bar>a\<bar> (infty_norm v)"

definition vadd :: "vec \<Rightarrow> vec \<Rightarrow> vec" where
  "vadd x y = map2 (+) x y"

definition vsub :: "vec \<Rightarrow> vec \<Rightarrow> vec" where
  "vsub x y = map2 (-) x y"

definition vmul :: "vec \<Rightarrow> vec \<Rightarrow> vec" where
  "vmul x y = map2 (*) x y"

definition vdiv :: "vec \<Rightarrow> vec \<Rightarrow> vec" where
  "vdiv x y = map2 (/) x y"

definition vscale :: "real \<Rightarrow> vec \<Rightarrow> vec" where
  "vscale a x = map ((*) a) x"

definition vneg :: "vec \<Rightarrow> vec" where
  "vneg x = map uminus x"

definition dot :: "vec \<Rightarrow> vec \<Rightarrow> real" where
  "dot x y = sum_list (map2 (*) x y)"

definition squaredNorm :: "vec \<Rightarrow> real" where
  "squaredNorm x = dot x x"

text \<open>\<open>detail::positive_part\<close> and \<open>detail::negative_part\<close>.\<close>

definition positive_part :: "vec \<Rightarrow> vec" where
  "positive_part expr = map (\<lambda>e. if e > 0 then e else 0) expr"

definition negative_part :: "vec \<Rightarrow> vec" where
  "negative_part expr = map (\<lambda>e. if e < 0 then e else 0) expr"

section \<open>Sparse matrices\<close>

text \<open>
  A compressed-column matrix (\<open>sparse_ldlt::MatRef<T, I>\<close>) is the list of its columns;
  column \<open>j\<close> is the list of the pairs (row index, value) stored at the positions
  \<open>col_start(j) \<le> p < col_end(j)\<close>, in storage order. The constraint matrices are held
  transposed, as in the source: column \<open>j\<close> of \<open>AT\<close> is row \<open>j\<close> of \<open>A\<close>.
\<close>

type_synonym column = "(nat \<times> real) list"

record spmat =
  nrows :: nat
  cols :: "column list"

definition ncols :: "spmat \<Rightarrow> nat" where
  "ncols m = length (cols m)"

text \<open>
  The products the source leaves to Eigen. \<open>tr_mul m x\<close> is \<open>m.transpose() * x\<close>
  (for \<open>m = AT\<close> this is \<open>A * x\<close>), \<open>mat_mul m y\<close> is \<open>m * y\<close> (for \<open>m = AT\<close> this is
  \<open>A.transpose() * y\<close>), and \<open>symhi_mul h x\<close> is
  \<open>h.selfadjointView<Eigen::Upper>() * x\<close>, which reads the entries on and above the
  diagonal only and mirrors the ones above it.
\<close>

definition col_dot :: "column \<Rightarrow> vec \<Rightarrow> real" where
  "col_dot col x = sum_list (map (\<lambda>(i, a). a * x ! i) col)"

definition tr_mul :: "spmat \<Rightarrow> vec \<Rightarrow> vec" where
  "tr_mul m x = map (\<lambda>col. col_dot col x) (cols m)"

definition col_axpy :: "column \<Rightarrow> real \<Rightarrow> vec \<Rightarrow> vec" where
  "col_axpy col s out = fold (\<lambda>(i, a) out. out[i := out ! i + a * s]) col out"

definition mat_mul :: "spmat \<Rightarrow> vec \<Rightarrow> vec" where
  "mat_mul m y =
     fold (\<lambda>(j, col) out. col_axpy col (y ! j) out) (enumerate 0 (cols m))
       (replicate (nrows m) 0)"

definition symhi_entry :: "vec \<Rightarrow> nat \<Rightarrow> nat \<times> real \<Rightarrow> vec \<Rightarrow> vec" where
  "symhi_entry x j e out =
     (case e of (i, a) \<Rightarrow>
        if i < j then (out[i := out ! i + a * x ! j])[j := (out[i := out ! i + a * x ! j]) ! j + a * x ! i]
        else if i = j then out[j := out ! j + a * x ! j]
        else out)"

definition symhi_mul :: "spmat \<Rightarrow> vec \<Rightarrow> vec" where
  "symhi_mul h x =
     fold (\<lambda>(j, col) out. fold (symhi_entry x j) col out) (enumerate 0 (cols h))
       (replicate (nrows h) 0)"

section \<open>The QP model\<close>

text \<open>\<open>QpView\<close> and \<open>QpViewMut\<close>: the model \<open>(H, g, AT, b, CT, l, u)\<close>.\<close>

record qp_view =
  qp_H :: spmat
  qp_g :: vec
  qp_AT :: spmat
  qp_b :: vec
  qp_CT :: spmat
  qp_l :: vec
  qp_u :: vec

section \<open>Ruiz equilibration\<close>

datatype Symmetry = LOWER | UPPER

text \<open>\<open>std::numeric_limits<T>::epsilon()\<close> for \<open>T = double\<close>.\<close>

definition machine_eps :: real where
  "machine_eps = 1 / 2 ^ 52"

definition rowwise_infty_norm :: "vec \<Rightarrow> spmat \<Rightarrow> vec" where
  "rowwise_infty_norm row_norm m =
     fold (\<lambda>col rn. fold (\<lambda>(i, mx) rn. rn[i := max (rn ! i) \<bar>mx\<bar>]) col rn) (cols m) row_norm"

text \<open>
  One column of \<open>colwise_infty_norm_symhi\<close>: the entries are read up to the first one
  below the diagonal (\<open>if (i > j) break\<close>), and \<open>col_norm[j]\<close> is overwritten at the end.
\<close>

definition symhi_col_norm :: "nat \<Rightarrow> column \<Rightarrow> vec \<Rightarrow> vec" where
  "symhi_col_norm j col col_norm =
     (let upper = takeWhile (\<lambda>(i, hx). i \<le> j) col;
          norm_j = fold (\<lambda>(i, hx) nj. max nj \<bar>hx\<bar>) upper 0;
          cn = fold (\<lambda>(i, hx) cn. cn[i := max (cn ! i) \<bar>hx\<bar>]) upper col_norm
      in cn[j := norm_j])"

definition colwise_infty_norm_symhi :: "vec \<Rightarrow> spmat \<Rightarrow> vec" where
  "colwise_infty_norm_symhi col_norm h =
     fold (\<lambda>(j, col) cn. symhi_col_norm j col cn) (enumerate 0 (cols h)) col_norm"

text \<open>
  One column of \<open>colwise_infty_norm_symlo\<close>: the entries are read from the end of the
  column back to the first one above the diagonal (\<open>if (i < j) break\<close>).
\<close>

definition symlo_col_norm :: "nat \<Rightarrow> column \<Rightarrow> vec \<Rightarrow> vec" where
  "symlo_col_norm j col col_norm =
     (let lower = takeWhile (\<lambda>(i, hx). j \<le> i) (rev col);
          norm_j = fold (\<lambda>(i, hx) nj. max nj \<bar>hx\<bar>) lower 0;
          cn = fold (\<lambda>(i, hx) cn. cn[i := max (cn ! i) \<bar>hx\<bar>]) lower col_norm
      in cn[j := max (cn ! j) norm_j])"

definition colwise_infty_norm_symlo :: "vec \<Rightarrow> spmat \<Rightarrow> vec" where
  "colwise_infty_norm_symlo col_norm h =
     fold (\<lambda>(j, col) cn. symlo_col_norm j col cn) (enumerate 0 (cols h)) col_norm"

definition colwise_infty_norm :: "Symmetry \<Rightarrow> vec \<Rightarrow> spmat \<Rightarrow> vec" where
  "colwise_infty_norm symm col_norm h =
     (case symm of LOWER \<Rightarrow> colwise_infty_norm_symlo col_norm h
      | UPPER \<Rightarrow> colwise_infty_norm_symhi col_norm h)"

text \<open>The infinity norm of one stored column (\<open>a_row_norm\<close>, \<open>c_row_norm\<close>).\<close>

definition col_infty_norm :: "column \<Rightarrow> real" where
  "col_infty_norm col = fold (\<lambda>(i, a) nrm. max nrm \<bar>a\<bar>) col 0"

text \<open>
  \<open>normalize A\<close> and \<open>normalize C\<close>: the entry at row \<open>i\<close> of column \<open>j\<close> becomes
  \<open>delta(i) * (a * delta(off + j))\<close>, where \<open>off\<close> is \<open>n\<close> for \<open>AT\<close> and \<open>n + n_eq\<close> for
  \<open>CT\<close>.
\<close>

definition normalize_cols :: "vec \<Rightarrow> nat \<Rightarrow> spmat \<Rightarrow> spmat" where
  "normalize_cols delta off m =
     m\<lparr>cols := map (\<lambda>(j, col). map (\<lambda>(i, a). (i, delta ! i * (a * delta ! (off + j)))) col)
                  (enumerate 0 (cols m))\<rparr>"

text \<open>
  \<open>normalize H\<close>: for \<open>UPPER\<close> the entries of column \<open>j\<close> up to the first one below the
  diagonal are scaled, for \<open>LOWER\<close> the entries from the end of the column back to the
  first one above the diagonal; the others keep their value.
\<close>

definition normalize_H_col :: "Symmetry \<Rightarrow> vec \<Rightarrow> nat \<Rightarrow> column \<Rightarrow> column" where
  "normalize_H_col symm delta j col =
     (case symm of
        UPPER \<Rightarrow>
          (let k = length (takeWhile (\<lambda>(i, hx). i \<le> j) col)
           in map (\<lambda>(i, hx). (i, delta ! j * hx * delta ! i)) (take k col) @ drop k col)
      | LOWER \<Rightarrow>
          (let k = length col - length (takeWhile (\<lambda>(i, hx). j \<le> i) (rev col))
           in take k col @ map (\<lambda>(i, hx). (i, delta ! j * hx * delta ! i)) (drop k col)))"

definition normalize_H :: "Symmetry \<Rightarrow> vec \<Rightarrow> spmat \<Rightarrow> spmat" where
  "normalize_H symm delta h =
     h\<lparr>cols := map (\<lambda>(j, col). normalize_H_col symm delta j col) (enumerate 0 (cols h))\<rparr>"

definition scale_values :: "real \<Rightarrow> spmat \<Rightarrow> spmat" where
  "scale_values gamma m = m\<lparr>cols := map (map (\<lambda>(i, a). (i, a * gamma))) (cols m)\<rparr>"

text \<open>
  The locals of \<open>ruiz_scale_qp_in_place\<close>: the model being scaled, the accumulated
  scaling \<open>S\<close> (the caller's \<open>delta_\<close>), the scaling \<open>delta\<close> of the last round, \<open>c\<close>,
  \<open>gamma\<close> and the counter \<open>iter\<close>.
\<close>

record ruiz_vars =
  rz_qp :: qp_view
  rz_S :: vec
  rz_delta :: vec
  rz_c :: real
  rz_gamma :: real
  rz_iter :: int

text \<open>
  The scaling \<open>delta\<close> of one round: \<open>1 / (machine_eps + sqrt(norm))\<close> for the \<open>n\<close>
  primal rows, then for the columns of \<open>AT\<close> and of \<open>CT\<close>.
\<close>

definition ruiz_round_delta :: "Symmetry \<Rightarrow> qp_view \<Rightarrow> vec" where
  "ruiz_round_delta symm qp =
     (let n = nrows (qp_H qp);
          a_infty_norm = rowwise_infty_norm (replicate n 0) (qp_AT qp);
          c_infty_norm = rowwise_infty_norm (replicate n 0) (qp_CT qp);
          h_infty_norm = colwise_infty_norm symm (replicate n 0) (qp_H qp)
      in map (\<lambda>j. 1 / (machine_eps +
                sqrt (max (h_infty_norm ! j) (max (a_infty_norm ! j) (c_infty_norm ! j)))))
           [0..<n]
         @ map (\<lambda>col. 1 / (machine_eps + sqrt (col_infty_norm col))) (cols (qp_AT qp))
         @ map (\<lambda>col. 1 / (machine_eps + sqrt (col_infty_norm col))) (cols (qp_CT qp)))"

text \<open>
  The model after the normalisation by \<open>delta\<close> and before the cost scaling.
\<close>

definition ruiz_normalize :: "Symmetry \<Rightarrow> vec \<Rightarrow> qp_view \<Rightarrow> qp_view" where
  "ruiz_normalize symm delta qp =
     (let n = nrows (qp_H qp);
          n_eq = ncols (qp_AT qp);
          n_in = ncols (qp_CT qp)
      in \<lparr>qp_H = normalize_H symm delta (qp_H qp),
          qp_g = vmul (qp_g qp) (take n delta),
          qp_AT = normalize_cols delta n (qp_AT qp),
          qp_b = vmul (qp_b qp) (take n_eq (drop n delta)),
          qp_CT = normalize_cols delta (n + n_eq) (qp_CT qp),
          qp_l = vmul (qp_l qp) (drop (length delta - n_in) delta),
          qp_u = vmul (qp_u qp) (drop (length delta - n_in) delta)\<rparr>)"

text \<open>
  The cost scaling \<open>gamma = 1 / max(avg, 1)\<close>, where \<open>avg\<close> is the average of the column
  norms of the normalised \<open>H\<close>.
\<close>

definition ruiz_gamma :: "Symmetry \<Rightarrow> spmat \<Rightarrow> real" where
  "ruiz_gamma symm h =
     (let n = nrows h;
          h_infty_norm = colwise_infty_norm symm (replicate n 0) h;
          avg = fold (\<lambda>i avg. avg + h_infty_norm ! i) [0..<n] 0 / real n
      in 1 / max avg 1)"

text \<open>
  The body of the \<open>while\<close> loop after the counter test, one scaling round. The average
  \<open>avg /= T(n)\<close> is \<open>0/0\<close> for \<open>n = 0\<close>, not a number in the source; the model has no
  value for it and the round yields \<open>None\<close>.
\<close>

definition ruiz_round :: "Symmetry \<Rightarrow> ruiz_vars \<Rightarrow> ruiz_vars option" where
  "ruiz_round symm v =
     (let delta = ruiz_round_delta symm (rz_qp v);
          qp1 = ruiz_normalize symm delta (rz_qp v);
          gamma = ruiz_gamma symm (qp_H qp1)
      in if nrows (qp_H (rz_qp v)) = 0 then None
         else Some (v\<lparr>rz_qp := qp1\<lparr>qp_H := scale_values gamma (qp_H qp1),
                                     qp_g := vscale gamma (qp_g qp1)\<rparr>,
                       rz_S := vmul (rz_S v) delta,
                       rz_delta := delta,
                       rz_c := rz_c v * gamma,
                       rz_gamma := gamma\<rparr>))"

text \<open>
  The \<open>while\<close> loop. The counter starts at 1 and the loop leaves when it equals
  \<open>max_iter\<close>; for \<open>max_iter < 1\<close> nothing bounds the number of rounds, so the loop is a
  partial function: \<open>None\<close> when it does not return (or when a round has no value).
\<close>

partial_function (option) ruiz_loop ::
  "real \<Rightarrow> int \<Rightarrow> Symmetry \<Rightarrow> ruiz_vars \<Rightarrow> ruiz_vars option" where
  "ruiz_loop epsilon max_iter symm v =
     (if infty_norm (map (\<lambda>d. 1 - d) (rz_delta v)) > epsilon then
        (if rz_iter v = max_iter then Some v
         else Option.bind (ruiz_round symm (v\<lparr>rz_iter := rz_iter v + 1\<rparr>))
                (ruiz_loop epsilon max_iter symm))
      else Some v)"

definition ruiz_init :: "vec \<Rightarrow> qp_view \<Rightarrow> ruiz_vars" where
  "ruiz_init deltaS qp =
     \<lparr>rz_qp = qp, rz_S = deltaS,
      rz_delta = replicate (nrows (qp_H qp) + ncols (qp_AT qp) + ncols (qp_CT qp)) 0,
      rz_c = 1, rz_gamma = 1, rz_iter = 1\<rparr>"

text \<open>
  \<open>ruiz_scale_qp_in_place\<close> returns \<open>c\<close>; the scaled model and the accumulated scaling,
  which the source writes in place, are returned with it.
\<close>

definition ruiz_scale_qp_in_place ::
  "vec \<Rightarrow> qp_view \<Rightarrow> real \<Rightarrow> int \<Rightarrow> Symmetry \<Rightarrow> (real \<times> vec \<times> qp_view) option" where
  "ruiz_scale_qp_in_place deltaS qp epsilon max_iter symm =
     map_option (\<lambda>v. (rz_c v, rz_S v, rz_qp v))
       (ruiz_loop epsilon max_iter symm (ruiz_init deltaS qp))"

section \<open>Preconditioners\<close>

text \<open>
  \<open>struct RuizEquilibration\<close>. The constructor takes \<open>n\<close> and the number \<open>n_eq_in\<close> of
  constraints, and by default \<open>epsilon = 1e-3\<close>, \<open>max_iter = 10\<close> and \<open>UPPER\<close>.
\<close>

record RuizEquilibration =
  ruiz_delta :: vec
  ruiz_n :: nat
  ruiz_c :: real
  ruiz_epsilon :: real
  ruiz_max_iter :: int
  ruiz_symm :: Symmetry

definition RuizEquilibration_new ::
  "nat \<Rightarrow> nat \<Rightarrow> real \<Rightarrow> int \<Rightarrow> Symmetry \<Rightarrow> RuizEquilibration" where
  "RuizEquilibration_new n0 n_eq_in epsilon0 max_iter0 symm0 =
     \<lparr>ruiz_delta = replicate (n0 + n_eq_in) 1, ruiz_n = n0, ruiz_c = 1,
      ruiz_epsilon = epsilon0, ruiz_max_iter = max_iter0, ruiz_symm = symm0\<rparr>"

definition RuizEquilibration_default :: "nat \<Rightarrow> nat \<Rightarrow> RuizEquilibration" where
  "RuizEquilibration_default n0 n_eq_in = RuizEquilibration_new n0 n_eq_in (1 / 1000) 10 UPPER"

text \<open>
  The preconditioner is the template parameter \<open>P\<close> of \<open>qp_solve\<close>; the sources define
  \<open>RuizEquilibration\<close> and the no-op \<open>Identity\<close>.
\<close>

datatype precond = Ruiz RuizEquilibration | Identity

fun scale_qp_in_place :: "precond \<Rightarrow> qp_view \<Rightarrow> (precond \<times> qp_view) option" where
  "scale_qp_in_place (Ruiz r) qp =
     map_option (\<lambda>(c, S, qp'). (Ruiz (r\<lparr>ruiz_delta := S, ruiz_c := c\<rparr>), qp'))
       (ruiz_scale_qp_in_place (replicate (length (ruiz_delta r)) 1) qp
          (ruiz_epsilon r) (ruiz_max_iter r) (ruiz_symm r))"
| "scale_qp_in_place Identity qp = Some (Identity, qp)"

text \<open>
  The slices of \<open>delta\<close>: \<open>head(n)\<close>, \<open>middleRows(n, k)\<close> and \<open>tail(k)\<close>.
\<close>

definition delta_head :: "RuizEquilibration \<Rightarrow> vec" where
  "delta_head r = take (ruiz_n r) (ruiz_delta r)"

definition delta_middleRows :: "RuizEquilibration \<Rightarrow> nat \<Rightarrow> vec" where
  "delta_middleRows r k = take k (drop (ruiz_n r) (ruiz_delta r))"

definition delta_tail :: "RuizEquilibration \<Rightarrow> nat \<Rightarrow> vec" where
  "delta_tail r k = drop (length (ruiz_delta r) - k) (ruiz_delta r)"

fun scale_primal_in_place :: "precond \<Rightarrow> vec \<Rightarrow> vec" where
  "scale_primal_in_place (Ruiz r) primal = vdiv primal (delta_head r)"
| "scale_primal_in_place Identity primal = primal"

fun scale_dual_in_place_eq :: "precond \<Rightarrow> vec \<Rightarrow> vec" where
  "scale_dual_in_place_eq (Ruiz r) dual =
     map2 (\<lambda>y d. y / d * ruiz_c r) dual (delta_middleRows r (length dual))"
| "scale_dual_in_place_eq Identity dual = dual"

fun scale_dual_in_place_in :: "precond \<Rightarrow> vec \<Rightarrow> vec" where
  "scale_dual_in_place_in (Ruiz r) dual =
     map2 (\<lambda>y d. y / d * ruiz_c r) dual (delta_tail r (length dual))"
| "scale_dual_in_place_in Identity dual = dual"

fun unscale_primal_in_place :: "precond \<Rightarrow> vec \<Rightarrow> vec" where
  "unscale_primal_in_place (Ruiz r) primal = vmul primal (delta_head r)"
| "unscale_primal_in_place Identity primal = primal"

fun unscale_dual_in_place_eq :: "precond \<Rightarrow> vec \<Rightarrow> vec" where
  "unscale_dual_in_place_eq (Ruiz r) dual =
     map2 (\<lambda>y d. y * d / ruiz_c r) dual (delta_middleRows r (length dual))"
| "unscale_dual_in_place_eq Identity dual = dual"

fun unscale_dual_in_place_in :: "precond \<Rightarrow> vec \<Rightarrow> vec" where
  "unscale_dual_in_place_in (Ruiz r) dual =
     map2 (\<lambda>y d. y * d / ruiz_c r) dual (delta_tail r (length dual))"
| "unscale_dual_in_place_in Identity dual = dual"

fun scale_primal_residual_in_place_eq :: "precond \<Rightarrow> vec \<Rightarrow> vec" where
  "scale_primal_residual_in_place_eq (Ruiz r) primal_eq =
     vmul primal_eq (delta_middleRows r (length primal_eq))"
| "scale_primal_residual_in_place_eq Identity primal_eq = primal_eq"

fun scale_primal_residual_in_place_in :: "precond \<Rightarrow> vec \<Rightarrow> vec" where
  "scale_primal_residual_in_place_in (Ruiz r) primal_in =
     vmul primal_in (delta_tail r (length primal_in))"
| "scale_primal_residual_in_place_in Identity primal_in = primal_in"

fun scale_dual_residual_in_place :: "precond \<Rightarrow> vec \<Rightarrow> vec" where
  "scale_dual_residual_in_place (Ruiz r) dual =
     map2 (\<lambda>v d. v * (d * ruiz_c r)) dual (delta_head r)"
| "scale_dual_residual_in_place Identity dual = dual"

fun unscale_primal_residual_in_place_eq :: "precond \<Rightarrow> vec \<Rightarrow> vec" where
  "unscale_primal_residual_in_place_eq (Ruiz r) primal_eq =
     vdiv primal_eq (delta_middleRows r (length primal_eq))"
| "unscale_primal_residual_in_place_eq Identity primal_eq = primal_eq"

fun unscale_primal_residual_in_place_in :: "precond \<Rightarrow> vec \<Rightarrow> vec" where
  "unscale_primal_residual_in_place_in (Ruiz r) primal_in =
     vdiv primal_in (delta_tail r (length primal_in))"
| "unscale_primal_residual_in_place_in Identity primal_in = primal_in"

fun unscale_dual_residual_in_place :: "precond \<Rightarrow> vec \<Rightarrow> vec" where
  "unscale_dual_residual_in_place (Ruiz r) dual =
     map2 (\<lambda>v d. v / (d * ruiz_c r)) dual (delta_head r)"
| "unscale_dual_residual_in_place Identity dual = dual"

text \<open>
  The sizes Eigen requires of the operands of the operations above: a primal vector has
  \<open>n\<close> entries, and the slice of \<open>delta\<close> taken for a dual vector lies inside \<open>delta\<close>.
\<close>

fun fits_primal :: "precond \<Rightarrow> vec \<Rightarrow> bool" where
  "fits_primal (Ruiz r) x = (length x = ruiz_n r \<and> ruiz_n r \<le> length (ruiz_delta r))"
| "fits_primal Identity x = True"

fun fits_dual_eq :: "precond \<Rightarrow> vec \<Rightarrow> bool" where
  "fits_dual_eq (Ruiz r) y = (ruiz_n r + length y \<le> length (ruiz_delta r))"
| "fits_dual_eq Identity y = True"

fun fits_dual_in :: "precond \<Rightarrow> vec \<Rightarrow> bool" where
  "fits_dual_in (Ruiz r) z = (length z \<le> length (ruiz_delta r))"
| "fits_dual_in Identity z = True"

section \<open>IEEE special values\<close>

text \<open>
  The line search divides by the entries of \<open>C dx\<close> without a test, and its bookkeeping
  starts from \<open>std::numeric_limits<T>::infinity()\<close>. For these values a scalar is a finite
  real, an infinity or NaN. Finite arithmetic stays exact, and a zero is \<open>+0\<close>: the zeros
  that reach a denominator here are sums accumulated onto a zero-initialised vector
  (\<open>LDLT_TEMP_VEC\<close> followed by \<open>+=\<close>) or differences, which IEEE rounds to \<open>+0\<close>.
\<close>

datatype fl = Fin real | PInf | NInf | NaN

fun fl_neg :: "fl \<Rightarrow> fl" where
  "fl_neg (Fin x) = Fin (- x)"
| "fl_neg PInf = NInf"
| "fl_neg NInf = PInf"
| "fl_neg NaN = NaN"

fun fl_add :: "fl \<Rightarrow> fl \<Rightarrow> fl" where
  "fl_add (Fin x) (Fin y) = Fin (x + y)"
| "fl_add NaN _ = NaN"
| "fl_add _ NaN = NaN"
| "fl_add PInf NInf = NaN"
| "fl_add NInf PInf = NaN"
| "fl_add PInf _ = PInf"
| "fl_add NInf _ = NInf"
| "fl_add _ PInf = PInf"
| "fl_add _ NInf = NInf"

definition fl_sub :: "fl \<Rightarrow> fl \<Rightarrow> fl" where
  "fl_sub a b = fl_add a (fl_neg b)"

text \<open>The sign of a value that is not NaN: \<open>-1\<close>, \<open>0\<close> or \<open>1\<close>.\<close>

fun fl_sgn :: "fl \<Rightarrow> real" where
  "fl_sgn (Fin x) = sgn x"
| "fl_sgn PInf = 1"
| "fl_sgn NInf = - 1"
| "fl_sgn NaN = 0"

definition fl_inf :: "real \<Rightarrow> fl" where
  "fl_inf sg = (if sg > 0 then PInf else if sg < 0 then NInf else NaN)"

fun fl_mul :: "fl \<Rightarrow> fl \<Rightarrow> fl" where
  "fl_mul (Fin x) (Fin y) = Fin (x * y)"
| "fl_mul NaN _ = NaN"
| "fl_mul _ NaN = NaN"
| "fl_mul a b = fl_inf (fl_sgn a * fl_sgn b)"

fun fl_div :: "fl \<Rightarrow> fl \<Rightarrow> fl" where
  "fl_div (Fin x) (Fin y) = (if y \<noteq> 0 then Fin (x / y) else fl_inf (sgn x))"
| "fl_div NaN _ = NaN"
| "fl_div _ NaN = NaN"
| "fl_div (Fin x) _ = Fin 0"
| "fl_div a (Fin y) = fl_inf (fl_sgn a * (if y < 0 then - 1 else 1))"
| "fl_div _ _ = NaN"

fun fl_lt :: "fl \<Rightarrow> fl \<Rightarrow> bool" where
  "fl_lt (Fin x) (Fin y) = (x < y)"
| "fl_lt NaN _ = False"
| "fl_lt _ NaN = False"
| "fl_lt NInf b = (b \<noteq> NInf)"
| "fl_lt a PInf = (a \<noteq> PInf)"
| "fl_lt _ _ = False"

definition fl_eq :: "fl \<Rightarrow> fl \<Rightarrow> bool" where
  "fl_eq a b = (a \<noteq> NaN \<and> a = b)"

definition fl_le :: "fl \<Rightarrow> fl \<Rightarrow> bool" where
  "fl_le a b = (fl_lt a b \<or> fl_eq a b)"

text \<open>\<open>std::sort\<close> and \<open>std::unique\<close> on a range that holds no NaN.\<close>

fun fl_insort :: "fl \<Rightarrow> fl list \<Rightarrow> fl list" where
  "fl_insort a [] = [a]"
| "fl_insort a (b # bs) = (if fl_le a b then a # b # bs else b # fl_insort a bs)"

definition fl_sort :: "fl list \<Rightarrow> fl list" where
  "fl_sort as = foldr fl_insort as []"

section \<open>Settings, kernel and solver state\<close>

text \<open>
  The fields of \<open>QPSettings<T>\<close> that \<open>qp_solve\<close> reads (\<^verbatim>\<open>qp/QPSettings.hpp\<close> is not
  among the sources).
\<close>

record QPSettings =
  alpha_bcl :: real
  beta_bcl :: real
  mu_max_eq :: real
  mu_max_in :: real
  mu_update_factor :: real
  cold_reset_mu_eq :: real
  cold_reset_mu_in :: real
  max_iter :: int
  max_iter_in :: int
  eps_abs :: real
  eps_rel :: real
  nb_iterative_refinement :: int
  warm_start :: bool

text \<open>
  What the factorization stands for. The numeric and symbolic factorization, the
  triangular solves and the rank-one update are not among the sources, so the array
  \<open>ldl\<close> is not modelled entry by entry; the model records of it
  \<^item> \<open>ld_diag\<close>: for every slot of the KKT matrix the diagonal value the factorization was
    last given for it (the array \<open>diag\<close> of \<open>refactorize\<close>, the \<open>diag_element\<close> of
    \<open>add_row\<close>, the 1 that \<open>delete_row\<close> writes),
  \<^item> \<open>ld_col_nnz\<close>: for every inequality the number of entries of its KKT column that are
    part of the factored matrix,
  \<^item> \<open>ld_nnz_counts\<close>: for every inequality the entry of \<open>ldl_nnz_counts\<close> at the permuted
    position of its slot (\<open>pldnz[permuted_pos]\<close> in \<^verbatim>\<open>rowmod.hpp\<close>).
\<close>

record ldl_fact =
  ld_diag :: vec
  ld_col_nnz :: "nat list"
  ld_nnz_counts :: "nat list"

text \<open>
  The functions the solver calls and the sources do not define: \<open>pow\<close> of the C++
  library, the solve with the factorization (\<open>ldl_solve\<close>: permutation, \<open>dense_lsolve\<close>,
  division by \<open>D\<close>, \<open>dense_ltsolve\<close>), and \<open>k_lnz cnt i\<close>, the number of entries below the
  diagonal in the column of \<open>L\<close> for inequality \<open>i\<close> when the columns of the factored
  KKT matrix hold \<open>cnt\<close> entries.
\<close>

record kernel =
  k_pow :: "real \<Rightarrow> real \<Rightarrow> real"
  k_ldl_solve :: "ldl_fact \<Rightarrow> vec \<Rightarrow> vec"
  k_lnz :: "nat list \<Rightarrow> nat \<Rightarrow> nat"

text \<open>
  Modelled from the spec: the entries of \<open>ldl_nnz_counts\<close> after an operation of the
  factorization kernel (\<open>factorize_symbolic_non_zeros\<close>, \<open>rank1_update\<close> and
  \<open>merge_second_col_into_first\<close> are not among the sources). The spec has
  \<open>L D L\<^sup>T = P K P\<^sup>T\<close> between solver operations, and for an inactive inequality a slot
  with 1 on the diagonal and an empty off-diagonal: such a slot is an isolated node of
  the elimination graph, and its column of \<open>L\<close> holds the diagonal entry only.
\<close>

definition ldl_col_count :: "kernel \<Rightarrow> nat list \<Rightarrow> nat \<Rightarrow> nat" where
  "ldl_col_count k cnt i = (if cnt ! i = 0 then 1 else 1 + k_lnz k cnt i)"

definition ldl_counts :: "kernel \<Rightarrow> nat list \<Rightarrow> nat list" where
  "ldl_counts k cnt = map (ldl_col_count k cnt) [0..<length cnt]"

datatype error = AssertFailed | NonFinite

definition bind_err :: "error + 'a \<Rightarrow> ('a \<Rightarrow> error + 'b) \<Rightarrow> error + 'b" where
  "bind_err r f = (case r of Inl e \<Rightarrow> Inl e | Inr a \<Rightarrow> f a)"

text \<open>
  \<open>add_row\<close> of \<^verbatim>\<open>rowmod.hpp\<close> at the slot of inequality \<open>i\<close>, with a new column of
  \<open>col_nnz\<close> entries and the diagonal \<open>diag_element\<close>. It starts with
  \<open>VEG_ASSERT(pldnz[permuted_pos] == 1)\<close>.
\<close>

definition add_row :: "kernel \<Rightarrow> nat \<Rightarrow> ldl_fact \<Rightarrow> nat \<Rightarrow> nat \<Rightarrow> real \<Rightarrow> error + ldl_fact" where
  "add_row k off ld i col_nnz diag_element =
     (if ld_nnz_counts ld ! i \<noteq> 1 then Inl AssertFailed
      else Inr \<lparr>ld_diag = (ld_diag ld)[off + i := diag_element],
                ld_col_nnz = (ld_col_nnz ld)[i := col_nnz],
                ld_nnz_counts = ldl_counts k ((ld_col_nnz ld)[i := col_nnz])\<rparr>)"

text \<open>
  \<open>delete_row\<close> of \<^verbatim>\<open>rowmod.hpp\<close>: step 2 sets \<open>d_kk = 1\<close>, step 4 ends with
  \<open>pldnz[permuted_pos] = 1\<close>.
\<close>

definition delete_row :: "kernel \<Rightarrow> nat \<Rightarrow> ldl_fact \<Rightarrow> nat \<Rightarrow> ldl_fact" where
  "delete_row k off ld i =
     \<lparr>ld_diag = (ld_diag ld)[off + i := 1],
      ld_col_nnz = (ld_col_nnz ld)[i := 0],
      ld_nnz_counts = (ldl_counts k ((ld_col_nnz ld)[i := 0]))[i := 1]\<rparr>"

text \<open>
  The variables of \<open>qp_solve\<close> that change during the solve: the iterates, the penalty
  parameters and tolerances, the active set with the column counts of \<open>kkt_active\<close> for
  the inequality slots, the factorization, and the locals of an outer iteration that
  its lambdas share.
\<close>

record solver_vars =
  x_e :: vec
  y_e :: vec
  z_e :: vec
  mu_eq :: real
  mu_in :: real
  bcl_eta_ext :: real
  bcl_eta_in :: real
  active_constraints :: "bool list"
  kkt_nnz_counts :: "nat list"
  ldl :: ldl_fact
  new_bcl_mu_eq :: real
  new_bcl_mu_in :: real
  x_prev_e :: vec
  y_prev_e :: vec
  z_prev_e :: vec
  primal_residual_eq_scaled :: vec
  primal_residual_in_scaled_lo :: vec
  primal_residual_in_scaled_up :: vec
  dual_residual_scaled :: vec
  primal_feasibility_eq_rhs_0 :: real
  primal_feasibility_in_rhs_0 :: real
  dual_feasibility_rhs_0 :: real
  dual_feasibility_rhs_1 :: real
  dual_feasibility_rhs_3 :: real

text \<open>What stays fixed once the model is scaled.\<close>

record solve_ctx =
  c_kernel :: kernel
  c_settings :: QPSettings
  c_precond :: precond
  c_qp :: qp_view
  c_qp_scaled :: qp_view
  c_rho :: real

definition c_n :: "solve_ctx \<Rightarrow> nat" where
  "c_n c = nrows (qp_H (c_qp c))"

definition c_n_eq :: "solve_ctx \<Rightarrow> nat" where
  "c_n_eq c = ncols (qp_AT (c_qp c))"

definition c_n_in :: "solve_ctx \<Rightarrow> nat" where
  "c_n_in c = ncols (qp_CT (c_qp c))"

definition bcl_eta_ext_init :: "solve_ctx \<Rightarrow> real" where
  "bcl_eta_ext_init c = k_pow (c_kernel c) (1 / 10) (alpha_bcl (c_settings c))"

definition eps_in_min :: "solve_ctx \<Rightarrow> real" where
  "eps_in_min c = min (eps_abs (c_settings c)) (1 / 10 ^ 9)"

section \<open>Factorization and linear solves\<close>

text \<open>
  The lambda \<open>refactorize\<close>: the diagonal is assembled from \<open>rho\<close>, \<open>mu_eq\<close>, \<open>mu_in\<close> and
  the active set as they are when it is called, and handed to \<open>factorize_numeric\<close> with
  \<open>kkt_active\<close>.
\<close>

definition refactorize :: "solve_ctx \<Rightarrow> solver_vars \<Rightarrow> solver_vars" where
  "refactorize c s =
     s\<lparr>ldl := \<lparr>ld_diag = replicate (c_n c) (c_rho c) @ replicate (c_n_eq c) (- 1 / mu_eq s)
                   @ map (\<lambda>i. if active_constraints s ! i then - 1 / mu_in s else 1)
                       [0..<c_n_in c],
                ld_col_nnz = kkt_nnz_counts s,
                ld_nnz_counts = ldl_counts (c_kernel c) (kkt_nnz_counts s)\<rparr>\<rparr>"

text \<open>
  \<open>kkt_active.topRightCorner(n, n_in)\<close>, the transpose of \<open>C_active\<close>: column \<open>i\<close> of the
  scaled \<open>CT\<close> cut to the \<open>nnz_per_col\<close> of its slot, so empty for an inactive inequality.
\<close>

definition C_active_T :: "solve_ctx \<Rightarrow> solver_vars \<Rightarrow> spmat" where
  "C_active_T c s =
     (qp_CT (c_qp_scaled c))\<lparr>cols := map2 take (kkt_nnz_counts s) (cols (qp_CT (c_qp_scaled c)))\<rparr>"

text \<open>
  The residual \<open>err\<close> of a refinement pass, in its three blocks: \<open>-rhs\<close> in the first
  pass, \<open>K sol - rhs\<close> afterwards.
\<close>

definition kkt_residual ::
  "solve_ctx \<Rightarrow> solver_vars \<Rightarrow> vec \<Rightarrow> vec \<Rightarrow> nat \<Rightarrow> vec \<times> vec \<times> vec" where
  "kkt_residual c s rhs sol solve_iter =
     (let n = c_n c; n_eq = c_n_eq c; n_in = c_n_in c;
          qs = c_qp_scaled c;
          err = vneg rhs;
          err_x = take n err;
          err_y = take n_eq (drop n err);
          err_z = drop (n + n_eq) err;
          sol_x = take n sol;
          sol_y = take n_eq (drop n sol);
          sol_z = drop (n + n_eq) sol
      in if solve_iter > 0 then
           (vadd (vadd (vadd (vadd err_x (symhi_mul (qp_H qs) sol_x)) (vscale (c_rho c) sol_x))
                    (mat_mul (qp_AT qs) sol_y))
              (mat_mul (C_active_T c s) sol_z),
            vadd (vadd err_y (tr_mul (qp_AT qs) sol_x)) (vscale (- 1 / mu_eq s) sol_y),
            map (\<lambda>i. vadd err_z (tr_mul (C_active_T c s) sol_x) ! i
                      + (if active_constraints s ! i then - 1 / mu_in s else 1) * sol_z ! i)
              [0..<n_in])
         else (err_x, err_y, err_z))"

text \<open>
  The loop of \<open>ldl_iter_solve_noalias\<close>. \<open>prev_err_norm\<close> starts at infinity (\<open>None\<close>).
  The norm that is compared is the norm of \<open>err_z\<close>. The result is the solution and
  the number of passes that ran to their end (each calls \<open>ldl_solve\<close> once).
\<close>

fun ldl_iter_solve_loop ::
  "solve_ctx \<Rightarrow> solver_vars \<Rightarrow> vec \<Rightarrow> nat \<Rightarrow> nat \<Rightarrow> real option \<Rightarrow> vec \<Rightarrow> vec \<times> nat" where
  "ldl_iter_solve_loop c s rhs 0 solve_iter prev_err_norm sol = (sol, solve_iter)"
| "ldl_iter_solve_loop c s rhs (Suc left) solve_iter prev_err_norm sol =
     (case kkt_residual c s rhs sol solve_iter of (err_x, err_y, err_z) \<Rightarrow>
        if (case prev_err_norm of None \<Rightarrow> False | Some pe \<Rightarrow> infty_norm err_z > pe)
        then (sol, solve_iter)
        else ldl_iter_solve_loop c s rhs left (solve_iter + 1) (Some (infty_norm err_z))
               (vsub sol (k_ldl_solve (c_kernel c) (ldl s) (err_x @ err_y @ err_z))))"

definition ldl_iter_solve_noalias :: "solve_ctx \<Rightarrow> solver_vars \<Rightarrow> vec \<Rightarrow> vec \<times> nat" where
  "ldl_iter_solve_noalias c s rhs =
     ldl_iter_solve_loop c s rhs (nat (nb_iterative_refinement (c_settings c))) 0 None
       (replicate (c_n c + c_n_eq c + c_n_in c) 0)"

definition ldl_solve_in_place :: "solve_ctx \<Rightarrow> solver_vars \<Rightarrow> vec \<Rightarrow> vec" where
  "ldl_solve_in_place c s rhs = fst (ldl_iter_solve_noalias c s rhs)"

section \<open>Residuals and the convergence test\<close>

text \<open>
  The lambda \<open>unscaled_primal_residual\<close>: it returns \<open>primal_feasibility_lhs\<close> and leaves
  the scaled \<open>A x - b\<close>, the unscaled \<open>[C x - u]\<^sup>+ + [C x - l]\<^sup>-\<close> and the scaled \<open>C x\<close>
  in the residual vectors, and the norms of \<open>A x\<close> and \<open>C x\<close> in the \<open>rhs_0\<close> variables.
\<close>

definition unscaled_primal_residual :: "solve_ctx \<Rightarrow> solver_vars \<Rightarrow> solver_vars \<times> real" where
  "unscaled_primal_residual c s =
     (let p = c_precond c;
          eq0 = unscale_primal_residual_in_place_eq p (tr_mul (qp_AT (c_qp_scaled c)) (x_e s));
          up0 = unscale_primal_residual_in_place_in p (tr_mul (qp_CT (c_qp_scaled c)) (x_e s));
          lo = vadd (positive_part (vsub up0 (qp_u (c_qp c))))
                 (negative_part (vsub up0 (qp_l (c_qp c))));
          eq1 = vsub eq0 (qp_b (c_qp c));
          primal_feasibility_eq_lhs = infty_norm eq1;
          primal_feasibility_in_lhs = infty_norm lo
      in (s\<lparr>primal_feasibility_eq_rhs_0 := infty_norm eq0,
            primal_feasibility_in_rhs_0 := infty_norm up0,
            primal_residual_in_scaled_lo := lo,
            primal_residual_eq_scaled := scale_primal_residual_in_place_eq p eq1,
            primal_residual_in_scaled_up := scale_primal_residual_in_place_in p up0\<rparr>,
          max primal_feasibility_eq_lhs primal_feasibility_in_lhs))"

text \<open>The lambda \<open>unscaled_dual_residual\<close>; it returns \<open>dual_feasibility_lhs\<close>.\<close>

definition unscaled_dual_residual :: "solve_ctx \<Rightarrow> solver_vars \<Rightarrow> solver_vars \<times> real" where
  "unscaled_dual_residual c s =
     (let p = c_precond c;
          qs = c_qp_scaled c;
          Hx = symhi_mul (qp_H qs) (x_e s);
          ATy = mat_mul (qp_AT qs) (y_e s);
          CTz = mat_mul (qp_CT qs) (z_e s);
          dual = unscale_dual_residual_in_place p (vadd (vadd (vadd (qp_g qs) Hx) ATy) CTz)
      in (s\<lparr>dual_feasibility_rhs_0 := infty_norm (unscale_dual_residual_in_place p Hx),
            dual_feasibility_rhs_1 := infty_norm (unscale_dual_residual_in_place p ATy),
            dual_feasibility_rhs_3 := infty_norm (unscale_dual_residual_in_place p CTz),
            dual_residual_scaled := scale_dual_residual_in_place p dual\<rparr>,
          infty_norm dual))"

definition is_primal_feasible :: "solve_ctx \<Rightarrow> solver_vars \<Rightarrow> real \<Rightarrow> bool" where
  "is_primal_feasible c s primal_feasibility_lhs =
     (let rhs_pri = eps_abs (c_settings c);
          rhs_pri =
            (if eps_rel (c_settings c) \<noteq> 0 then
               rhs_pri + eps_rel (c_settings c) *
                 max (primal_feasibility_eq_rhs_0 s)
                   (max (primal_feasibility_in_rhs_0 s)
                      (max (infty_norm (qp_b (c_qp c)))
                         (max (infty_norm (qp_l (c_qp c))) (infty_norm (qp_u (c_qp c))))))
             else rhs_pri)
      in primal_feasibility_lhs \<le> rhs_pri)"

definition is_dual_feasible :: "solve_ctx \<Rightarrow> solver_vars \<Rightarrow> real \<Rightarrow> bool" where
  "is_dual_feasible c s dual_feasibility_lhs =
     (let rhs_dua = eps_abs (c_settings c);
          rhs_dua =
            (if eps_rel (c_settings c) \<noteq> 0 then
               rhs_dua + eps_rel (c_settings c) *
                 max (dual_feasibility_rhs_0 s)
                   (max (dual_feasibility_rhs_1 s)
                      (max (infty_norm (qp_g (c_qp c))) (dual_feasibility_rhs_3 s)))
             else rhs_dua)
      in dual_feasibility_lhs \<le> rhs_dua)"

section \<open>The inner loop: semi-smooth Newton with line search\<close>

text \<open>
  The active set change of one inner iteration, for inequality \<open>i\<close>. The flag is
  \<open>added || removed\<close>. (The total \<open>nnz\<close> of \<open>kkt_active\<close>, which the source also
  adjusts, is not part of the model.)
\<close>

definition active_set_step ::
  "solve_ctx \<Rightarrow> bool list \<Rightarrow> nat \<Rightarrow> solver_vars \<times> bool \<Rightarrow> error + solver_vars \<times> bool" where
  "active_set_step c new_active_constraints i sc =
     (case sc of (s, changed) \<Rightarrow>
        let was_active = active_constraints s ! i;
            is_active = new_active_constraints ! i;
            col_nnz = length (cols (qp_CT (c_qp_scaled c)) ! i)
        in if is_active \<and> \<not> was_active then
             bind_err (add_row (c_kernel c) (c_n c + c_n_eq c) (ldl s) i col_nnz (- 1 / mu_in s))
               (\<lambda>ld. Inr (s\<lparr>kkt_nnz_counts := (kkt_nnz_counts s)[i := col_nnz],
                              ldl := ld,
                              active_constraints :=
                                (active_constraints s)[i := new_active_constraints ! i]\<rparr>,
                           True))
           else if \<not> is_active \<and> was_active then
             Inr (s\<lparr>kkt_nnz_counts := (kkt_nnz_counts s)[i := 0],
                    ldl := delete_row (c_kernel c) (c_n c + c_n_eq c) (ldl s) i,
                    active_constraints :=
                      (active_constraints s)[i := new_active_constraints ! i]\<rparr>,
                  True)
           else Inr (s, changed))"

fun active_set_sweep ::
  "solve_ctx \<Rightarrow> bool list \<Rightarrow> nat list \<Rightarrow> solver_vars \<times> bool \<Rightarrow> error + solver_vars \<times> bool" where
  "active_set_sweep c new_active_constraints [] sc = Inr sc"
| "active_set_sweep c new_active_constraints (i # idxs) sc =
     bind_err (active_set_step c new_active_constraints i sc)
       (active_set_sweep c new_active_constraints idxs)"

definition active_set_change :: "solve_ctx \<Rightarrow> solver_vars \<Rightarrow> bool list \<Rightarrow> error + solver_vars" where
  "active_set_change c s new_active_constraints =
     (if c_n_in c > 0 then
        bind_err (active_set_sweep c new_active_constraints [0..<c_n_in c] (s, False))
          (\<lambda>(s', changed). Inr (if changed then refactorize c s' else s'))
      else Inr s)"

text \<open>The right-hand side of the Newton system.\<close>

definition newton_rhs :: "solve_ctx \<Rightarrow> solver_vars \<Rightarrow> bool list \<Rightarrow> bool list \<Rightarrow> vec" where
  "newton_rhs c s active_set_lo active_set_up =
     (case fold (\<lambda>i (rhs_x, rhs_z).
              if active_set_up ! i then
                (rhs_x, rhs_z @ [1 / mu_in s * z_e s ! i - primal_residual_in_scaled_up s ! i])
              else if active_set_lo ! i then
                (rhs_x, rhs_z @ [1 / mu_in s * z_e s ! i - primal_residual_in_scaled_lo s ! i])
              else
                (col_axpy (cols (qp_CT (c_qp_scaled c)) ! i) (z_e s ! i) rhs_x,
                 rhs_z @ [- z_e s ! i]))
            [0..<c_n_in c] (vneg (dual_residual_scaled s), [])
      of (rhs_x, rhs_z) \<Rightarrow> rhs_x @ vneg (primal_residual_eq_scaled s) @ rhs_z)"

text \<open>
  The breakpoints of the line search. For every inequality the two quotients are
  formed, with no test on the denominator, and those that compare \<open>> 0\<close> are kept.
\<close>

definition alpha_candidates :: "vec \<Rightarrow> vec \<Rightarrow> vec \<Rightarrow> nat \<Rightarrow> fl list" where
  "alpha_candidates r_lo r_up Cdx i =
     [fl_div (Fin (- r_lo ! i)) (Fin (Cdx ! i)), fl_div (Fin (- r_up ! i)) (Fin (Cdx ! i))]"

definition collect_alphas :: "nat \<Rightarrow> vec \<Rightarrow> vec \<Rightarrow> vec \<Rightarrow> fl list" where
  "collect_alphas n_in r_lo r_up Cdx =
     concat (map (\<lambda>i. filter (\<lambda>alpha_candidate. fl_lt (Fin 0) alpha_candidate)
                        (alpha_candidates r_lo r_up Cdx i)) [0..<n_in])"

definition breakpoints :: "nat \<Rightarrow> vec \<Rightarrow> vec \<Rightarrow> vec \<Rightarrow> fl list" where
  "breakpoints n_in r_lo r_up Cdx = remdups_adj (fl_sort (collect_alphas n_in r_lo r_up Cdx))"

record PrimalDualGradResult =
  pdg_a :: real
  pdg_b :: real
  pdg_grad :: fl

text \<open>The Newton step and the products with it that the line search reads.\<close>

record newton_dir =
  d_dx :: vec
  d_dy :: vec
  d_dz :: vec
  d_Hdx :: vec
  d_Adx :: vec
  d_Cdx :: vec
  d_ATdy :: vec
  d_CTdz :: vec

definition select :: "bool list \<Rightarrow> vec \<Rightarrow> vec" where
  "select msk v = map2 (\<lambda>m a. if m then a else 0) msk v"

definition primal_dual_gradient_norm ::
  "solve_ctx \<Rightarrow> solver_vars \<Rightarrow> newton_dir \<Rightarrow> fl \<Rightarrow> PrimalDualGradResult" where
  "primal_dual_gradient_norm c s d alpha_cur =
     (let r_lo = primal_residual_in_scaled_lo s;
          r_up = primal_residual_in_scaled_up s;
          r_eq = primal_residual_eq_scaled s;
          rho = c_rho c;
          tmp_lo = map2 (\<lambda>r cd. fl_add (Fin r) (fl_mul alpha_cur (Fin cd))) r_lo (d_Cdx d);
          tmp_up = map2 (\<lambda>r cd. fl_add (Fin r) (fl_mul alpha_cur (Fin cd))) r_up (d_Cdx d);
          lo_neg = map (\<lambda>t. fl_lt t (Fin 0)) tmp_lo;
          up_pos = map (\<lambda>t. fl_lt (Fin 0) t) tmp_up;
          Cdx_active = select (map2 (\<or>) lo_neg up_pos) (d_Cdx d);
          active_part_z = vadd (select lo_neg r_lo) (select up_pos r_up);
          nu = 1;
          a = dot (d_dx d) (d_Hdx d)
              + rho * squaredNorm (d_dx d)
              + mu_eq s * squaredNorm (d_Adx d)
              + mu_in s * squaredNorm Cdx_active
              + nu / mu_eq s * squaredNorm (vsub (vscale (mu_eq s) (d_Adx d)) (d_dy d))
              + nu / mu_in s * squaredNorm (vsub (vscale (mu_in s) Cdx_active) (d_dz d));
          b = dot (x_e s) (d_Hdx d)
              + dot (vadd (vscale rho (vsub (x_e s) (x_prev_e s))) (qp_g (c_qp_scaled c))) (d_dx d)
              + dot (d_Adx d) (vadd (vscale (mu_eq s) r_eq) (y_e s))
              + mu_in s * dot Cdx_active active_part_z
              + nu * dot r_eq (vsub (vscale (mu_eq s) (d_Adx d)) (d_dy d))
              + nu * dot (vsub active_part_z (vscale (1 / mu_in s) (z_e s)))
                       (vsub (vscale (mu_in s) Cdx_active) (d_dz d))
      in \<lparr>pdg_a = a, pdg_b = b, pdg_grad = fl_add (fl_mul (Fin a) alpha_cur) (Fin b)\<rparr>)"

record ls_vars =
  last_neg_grad :: fl
  alpha_last_neg :: fl
  first_pos_grad :: fl
  alpha_first_pos :: fl

fun ls_walk :: "(fl \<Rightarrow> fl) \<Rightarrow> fl list \<Rightarrow> ls_vars \<Rightarrow> ls_vars" where
  "ls_walk gr [] v = v"
| "ls_walk gr (alpha_cur # alphas) v =
     (if fl_lt (gr alpha_cur) (Fin 0)
      then ls_walk gr alphas (v\<lparr>alpha_last_neg := alpha_cur, last_neg_grad := gr alpha_cur\<rparr>)
      else v\<lparr>first_pos_grad := gr alpha_cur, alpha_first_pos := alpha_cur\<rparr>)"

text \<open>The primal dual line search; the result is the step length \<open>alpha\<close>.\<close>

definition line_search :: "solve_ctx \<Rightarrow> solver_vars \<Rightarrow> newton_dir \<Rightarrow> fl" where
  "line_search c s d =
     (let alphas = breakpoints (c_n_in c) (primal_residual_in_scaled_lo s)
                     (primal_residual_in_scaled_up s) (d_Cdx d);
          gr = (\<lambda>alpha_cur. pdg_grad (primal_dual_gradient_norm c s d alpha_cur))
      in if alphas \<noteq> [] \<and> fl_le (hd alphas) (Fin 1) then
           (let v0 = ls_walk gr alphas
                       \<lparr>last_neg_grad = Fin 0, alpha_last_neg = Fin 0,
                        first_pos_grad = Fin 0, alpha_first_pos = PInf\<rparr>;
                v = (if fl_eq (alpha_last_neg v0) (Fin 0)
                     then v0\<lparr>last_neg_grad := gr (alpha_last_neg v0)\<rparr> else v0)
            in if fl_eq (alpha_first_pos v) PInf then
                 (let res = primal_dual_gradient_norm c s d
                              (fl_add (fl_mul (Fin 2) (alpha_last_neg v)) (Fin 1))
                  in fl_div (Fin (- pdg_b res)) (Fin (pdg_a res)))
               else if fl_eq (alpha_last_neg v) (Fin 0) \<and> fl_lt (alpha_first_pos v) (Fin 1) then
                 alpha_first_pos v
               else
                 fl_sub (alpha_last_neg v)
                   (fl_div (fl_mul (last_neg_grad v)
                              (fl_sub (alpha_first_pos v) (alpha_last_neg v)))
                      (fl_sub (first_pos_grad v) (last_neg_grad v))))
         else Fin 1)"

text \<open>
  How an inner iteration ends: by the small-step test, by the test on \<open>err_in\<close>, or by
  going on to the next iteration.
\<close>

datatype inner_exit = SmallStep | InnerConverged | MaxIterIn

datatype newton_step = Exit inner_exit solver_vars | Continue solver_vars

definition newton_direction :: "solve_ctx \<Rightarrow> solver_vars \<Rightarrow> vec \<Rightarrow> newton_dir" where
  "newton_direction c s dw =
     (let n = c_n c; n_eq = c_n_eq c; n_in = c_n_in c; qs = c_qp_scaled c;
          dx = take n dw;
          dy = take n_eq (drop n dw);
          dz = take n_in (drop (n + n_eq) dw)
      in \<lparr>d_dx = dx, d_dy = dy, d_dz = dz,
          d_Hdx = symhi_mul (qp_H qs) dx,
          d_Adx = tr_mul (qp_AT qs) dx,
          d_Cdx = tr_mul (qp_CT qs) dx,
          d_ATdy = mat_mul (qp_AT qs) dy,
          d_CTdz = mat_mul (qp_CT qs) dz\<rparr>)"

text \<open>The update of the iterates and of the cached residuals by the step \<open>alpha\<close>.\<close>

definition take_step :: "solve_ctx \<Rightarrow> solver_vars \<Rightarrow> newton_dir \<Rightarrow> real \<Rightarrow> solver_vars" where
  "take_step c s d alpha =
     s\<lparr>x_e := vadd (x_e s) (vscale alpha (d_dx d)),
       y_e := vadd (y_e s) (vscale alpha (d_dy d)),
       z_e := vadd (z_e s) (vscale alpha (d_dz d)),
       dual_residual_scaled :=
         vadd (dual_residual_scaled s)
           (vscale alpha (vadd (vadd (vadd (d_Hdx d) (d_ATdy d)) (d_CTdz d))
                            (vscale (c_rho c) (d_dx d)))),
       primal_residual_eq_scaled :=
         vadd (primal_residual_eq_scaled s)
           (vscale alpha (vsub (d_Adx d) (vscale (1 / mu_eq s) (d_dy d)))),
       primal_residual_in_scaled_lo :=
         vadd (primal_residual_in_scaled_lo s) (vscale alpha (d_Cdx d)),
       primal_residual_in_scaled_up :=
         vadd (primal_residual_in_scaled_up s) (vscale alpha (d_Cdx d))\<rparr>"

definition err_in :: "solver_vars \<Rightarrow> real" where
  "err_in s =
     max (infty_norm (vsub (vadd (negative_part (primal_residual_in_scaled_lo s))
                              (positive_part (primal_residual_in_scaled_up s)))
                        (vscale (1 / mu_in s) (z_e s))))
       (max (infty_norm (primal_residual_eq_scaled s)) (infty_norm (dual_residual_scaled s)))"

text \<open>
  The Newton step \<open>dw\<close> and the step length of one inner iteration, from the state after
  the active set change.
\<close>

definition newton_dw :: "solve_ctx \<Rightarrow> solver_vars \<Rightarrow> vec" where
  "newton_dw c s =
     ldl_solve_in_place c s
       (newton_rhs c s (map (\<lambda>r. r \<le> 0) (primal_residual_in_scaled_lo s))
          (map (\<lambda>r. r \<ge> 0) (primal_residual_in_scaled_up s)))"

definition newton_alpha :: "solve_ctx \<Rightarrow> solver_vars \<Rightarrow> fl" where
  "newton_alpha c s =
     (if c_n_in c > 0 then line_search c s (newton_direction c s (newton_dw c s)) else Fin 1)"

text \<open>
  One iteration of the loop in \<open>primal_dual_newton_semi_smooth\<close>. \<open>iter\<close> is the counter
  of the enclosing outer loop, which the lambda captures. A step length that is not
  finite ends the model's run with \<open>NonFinite\<close>.
\<close>

definition newton_iteration :: "solve_ctx \<Rightarrow> int \<Rightarrow> solver_vars \<Rightarrow> error + newton_step" where
  "newton_iteration c iter s0 =
     bind_err
       (active_set_change c s0
          (map2 (\<or>) (map (\<lambda>r. r \<le> 0) (primal_residual_in_scaled_lo s0))
             (map (\<lambda>r. r \<ge> 0) (primal_residual_in_scaled_up s0))))
       (\<lambda>s. case newton_alpha c s of
               Fin alpha \<Rightarrow>
                 if alpha * infty_norm (newton_dw c s) < 1 / 10 ^ 11 \<and> iter > 0
                 then Inr (Exit SmallStep s)
                 else
                   (let s' = take_step c s (newton_direction c s (newton_dw c s)) alpha
                    in if err_in s' \<le> bcl_eta_in s' then Inr (Exit InnerConverged s')
                       else Inr (Continue s'))
             | _ \<Rightarrow> Inl NonFinite)"

text \<open>
  The loop over \<open>iter_inner\<close>; the result names the exit, the number of inner iterations
  that were started, and the state.
\<close>

fun newton_loop ::
  "solve_ctx \<Rightarrow> int \<Rightarrow> nat \<Rightarrow> nat \<Rightarrow> solver_vars \<Rightarrow> error + inner_exit \<times> nat \<times> solver_vars" where
  "newton_loop c iter 0 iter_inner s = Inr (MaxIterIn, iter_inner, s)"
| "newton_loop c iter (Suc left) iter_inner s =
     bind_err (newton_iteration c iter s)
       (\<lambda>r. case r of
               Exit e s' \<Rightarrow> Inr (e, iter_inner + 1, s')
             | Continue s' \<Rightarrow> newton_loop c iter left (iter_inner + 1) s')"

definition primal_dual_newton_semi_smooth ::
  "solve_ctx \<Rightarrow> int \<Rightarrow> solver_vars \<Rightarrow> error + inner_exit \<times> nat \<times> solver_vars" where
  "primal_dual_newton_semi_smooth c iter s =
     newton_loop c iter (nat (max_iter_in (c_settings c))) 0 s"

section \<open>The outer loop\<close>

text \<open>
  The snapshot of the iterates and the shift of the inequality residuals into
  \<open>C x - l + z / mu_in\<close> and \<open>C x - u + z / mu_in\<close>, before the inner loop.
\<close>

definition shift_residuals :: "solve_ctx \<Rightarrow> solver_vars \<Rightarrow> solver_vars" where
  "shift_residuals c s =
     (let up = vadd (primal_residual_in_scaled_up s) (vscale (1 / mu_in s) (z_e s))
      in s\<lparr>x_prev_e := x_e s, y_prev_e := y_e s, z_prev_e := z_e s,
            primal_residual_in_scaled_lo := vsub up (qp_l (c_qp_scaled c)),
            primal_residual_in_scaled_up := vsub up (qp_u (c_qp_scaled c))\<rparr>)"

text \<open>The lambda \<open>bcl_update\<close>, on the primal feasibility after the inner loop.\<close>

definition bcl_update :: "solve_ctx \<Rightarrow> solver_vars \<Rightarrow> real \<Rightarrow> solver_vars" where
  "bcl_update c s primal_feasibility_lhs_new =
     (if primal_feasibility_lhs_new \<le> bcl_eta_ext s then
        s\<lparr>bcl_eta_ext :=
            bcl_eta_ext s * (1 / k_pow (c_kernel c) (mu_in s) (beta_bcl (c_settings c))),
          bcl_eta_in := max (bcl_eta_in s / mu_in s) (eps_in_min c)\<rparr>
      else
        (let new_mu_in = min (mu_in s * mu_update_factor (c_settings c)) (mu_max_in (c_settings c));
             new_mu_eq = min (mu_eq s * mu_update_factor (c_settings c)) (mu_max_eq (c_settings c))
         in s\<lparr>y_e := y_prev_e s,
               z_e := z_prev_e s,
               new_bcl_mu_in := new_mu_in,
               new_bcl_mu_eq := new_mu_eq,
               bcl_eta_ext :=
                 bcl_eta_ext_init c / k_pow (c_kernel c) new_mu_in (alpha_bcl (c_settings c)),
               bcl_eta_in := 1 / max new_mu_in (eps_in_min c)\<rparr>))"

text \<open>
  The cold reset test that follows \<open>bcl_update\<close>: both comparisons are against
  \<open>primal_feasibility_lhs\<close>, the primal feasibility before the inner loop.
\<close>

definition cold_reset :: "solve_ctx \<Rightarrow> solver_vars \<Rightarrow> real \<Rightarrow> real \<Rightarrow> real \<Rightarrow> solver_vars" where
  "cold_reset c s primal_feasibility_lhs primal_feasibility_lhs_new dual_feasibility_lhs_new =
     (if primal_feasibility_lhs_new \<ge> primal_feasibility_lhs \<and>
         dual_feasibility_lhs_new \<ge> primal_feasibility_lhs \<and>
         mu_in s \<ge> 100000
      then s\<lparr>new_bcl_mu_in := cold_reset_mu_in (c_settings c),
              new_bcl_mu_eq := cold_reset_mu_eq (c_settings c)\<rparr>
      else s)"

text \<open>
  The end of the body of the outer loop: \<open>mu_update()\<close>, which is \<open>refactorize()\<close>, is
  called first, then \<open>mu_eq\<close> and \<open>mu_in\<close> are assigned.
\<close>

definition mu_update_step :: "solve_ctx \<Rightarrow> solver_vars \<Rightarrow> solver_vars" where
  "mu_update_step c s =
     (if mu_in s \<noteq> new_bcl_mu_in s \<or> mu_eq s \<noteq> new_bcl_mu_eq s
      then (refactorize c s)\<lparr>mu_eq := new_bcl_mu_eq s, mu_in := new_bcl_mu_in s\<rparr>
      else s)"

datatype outer_step = Break solver_vars | Next solver_vars

text \<open>
  What follows the inner loop in the body of the outer loop, from the primal
  feasibility \<open>primal_feasibility_lhs\<close> measured before it.
\<close>

definition after_inner :: "solve_ctx \<Rightarrow> real \<Rightarrow> solver_vars \<Rightarrow> outer_step" where
  "after_inner c primal_feasibility_lhs s4 =
     (case unscaled_primal_residual c s4 of (s5, primal_feasibility_lhs_new) \<Rightarrow>
      case unscaled_dual_residual c s5 of (s6, dual_feasibility_lhs_new) \<Rightarrow>
        if is_primal_feasible c s6 primal_feasibility_lhs_new \<and>
           is_dual_feasible c s6 dual_feasibility_lhs_new
        then Break s6
        else
          (case unscaled_dual_residual c (bcl_update c s6 primal_feasibility_lhs_new) of
             (s8, dual_feasibility_lhs_new2) \<Rightarrow>
               Next (mu_update_step c
                 (cold_reset c s8 primal_feasibility_lhs primal_feasibility_lhs_new
                    dual_feasibility_lhs_new2))))"

definition outer_iteration :: "solve_ctx \<Rightarrow> int \<Rightarrow> solver_vars \<Rightarrow> error + outer_step" where
  "outer_iteration c iter s0 =
     (case unscaled_primal_residual c (s0\<lparr>new_bcl_mu_eq := mu_eq s0, new_bcl_mu_in := mu_in s0\<rparr>)
      of (s2, primal_feasibility_lhs) \<Rightarrow>
      case unscaled_dual_residual c s2 of (s3, dual_feasibility_lhs) \<Rightarrow>
        if is_primal_feasible c s3 primal_feasibility_lhs \<and>
           is_dual_feasible c s3 dual_feasibility_lhs
        then Inr (Break s3)
        else
          bind_err (primal_dual_newton_semi_smooth c iter (shift_residuals c s3))
            (\<lambda>(e, k, s4). Inr (after_inner c primal_feasibility_lhs s4)))"



text \<open>
  The state before the first outer iteration: all inequalities inactive, the initial
  penalties and tolerances, the first \<open>refactorize()\<close>, and without a warm start the
  solve for the initial guess.
\<close>

definition initial_vars :: "solve_ctx \<Rightarrow> vec \<Rightarrow> vec \<Rightarrow> vec \<Rightarrow> solver_vars" where
  "initial_vars c x y z =
     \<lparr>x_e = x, y_e = y, z_e = z, mu_eq = 1000, mu_in = 10,
      bcl_eta_ext = bcl_eta_ext_init c, bcl_eta_in = 1,
      active_constraints = replicate (c_n_in c) False,
      kkt_nnz_counts = replicate (c_n_in c) 0,
      ldl = \<lparr>ld_diag = [], ld_col_nnz = [], ld_nnz_counts = []\<rparr>,
      new_bcl_mu_eq = 1000, new_bcl_mu_in = 10,
      x_prev_e = [], y_prev_e = [], z_prev_e = [],
      primal_residual_eq_scaled = [], primal_residual_in_scaled_lo = [],
      primal_residual_in_scaled_up = [], dual_residual_scaled = [],
      primal_feasibility_eq_rhs_0 = 0, primal_feasibility_in_rhs_0 = 0,
      dual_feasibility_rhs_0 = 0, dual_feasibility_rhs_1 = 0, dual_feasibility_rhs_3 = 0\<rparr>"

definition initial_guess :: "solve_ctx \<Rightarrow> solver_vars \<Rightarrow> solver_vars" where
  "initial_guess c s =
     (if \<not> warm_start (c_settings c) then
        (let rhs = ldl_solve_in_place c s
                     (vneg (qp_g (c_qp_scaled c)) @ qp_b (c_qp_scaled c)
                        @ replicate (c_n_in c) 0)
         in s\<lparr>x_e := take (c_n c) rhs,
               y_e := take (c_n_eq c) (drop (c_n c) rhs),
               z_e := take (c_n_in c) (drop (c_n c + c_n_eq c) rhs)\<rparr>)
      else s)"



section \<open>Auxiliary notions for the proofs\<close>

text \<open>A vector of \<open>n\<close> nonnegative entries, as the norm vectors of the equilibration are.\<close>

definition nonneg_vec :: "nat \<Rightarrow> vec \<Rightarrow> bool" where
  "nonneg_vec n v \<longleftrightarrow> length v = n \<and> (\<forall>k<n. 0 \<le> v ! k)"

text \<open>The accumulated scalings of the equilibration are positive.\<close>

definition ruiz_pos :: "ruiz_vars \<Rightarrow> bool" where
  "ruiz_pos v \<longleftrightarrow> list_all (\<lambda>d. 0 < d) (rz_S v) \<and> 0 < rz_c v"

text \<open>A small model with one variable, one equality and one inequality.\<close>

definition qp_unit :: qp_view where
  "qp_unit =
     \<lparr>qp_H = \<lparr>nrows = 1, cols = [[(0, 1)]]\<rparr>, qp_g = [1],
      qp_AT = \<lparr>nrows = 1, cols = [[(0, 1)]]\<rparr>, qp_b = [1],
      qp_CT = \<lparr>nrows = 1, cols = [[(0, 1)]]\<rparr>, qp_l = [0], qp_u = [1]\<rparr>"



text \<open>
  The variables that the inner loop and the residual lambdas leave alone: penalties,
  tolerances, the snapshot of the iterates and the proposed penalties.
\<close>

definition same_params :: "solver_vars \<Rightarrow> solver_vars \<Rightarrow> bool" where
  "same_params s s' \<longleftrightarrow>
     mu_eq s' = mu_eq s \<and> mu_in s' = mu_in s \<and>
     bcl_eta_ext s' = bcl_eta_ext s \<and> bcl_eta_in s' = bcl_eta_in s \<and>
     x_prev_e s' = x_prev_e s \<and> y_prev_e s' = y_prev_e s \<and> z_prev_e s' = z_prev_e s \<and>
     new_bcl_mu_eq s' = new_bcl_mu_eq s \<and> new_bcl_mu_in s' = new_bcl_mu_in s"

text \<open>
  A kernel for the examples: \<open>pow\<close> as the real power, a solve that returns its
  argument, and one entry below the diagonal in the column of an active inequality.
\<close>

definition kernel_ex :: kernel where
  "kernel_ex = \<lparr>k_pow = (\<lambda>x y. x powr y), k_ldl_solve = (\<lambda>ld v. v), k_lnz = (\<lambda>cnt i. 1)\<rparr>"

text \<open>The default settings, with tolerances \<open>1e-9\<close>.\<close>

definition settings_default :: QPSettings where
  "settings_default =
     \<lparr>alpha_bcl = 1 / 10, beta_bcl = 9 / 10, mu_max_eq = 10 ^ 10, mu_max_in = 10 ^ 8,
      mu_update_factor = 10, cold_reset_mu_eq = 11 / 10, cold_reset_mu_in = 11 / 10,
      max_iter = 10000, max_iter_in = 1500, eps_abs = 1 / 10 ^ 9, eps_rel = 0,
      nb_iterative_refinement = 5, warm_start = False\<rparr>"

text \<open>
  A model with one variable and the inequality \<open>-1 \<le> x \<le> 1\<close>:
  minimize \<open>x\<^sup>2 / 2 - 100 x\<close>.
\<close>

definition qp_box :: qp_view where
  "qp_box =
     \<lparr>qp_H = \<lparr>nrows = 1, cols = [[(0, 1)]]\<rparr>, qp_g = [- 100],
      qp_AT = \<lparr>nrows = 1, cols = []\<rparr>, qp_b = [],
      qp_CT = \<lparr>nrows = 1, cols = [[(0, 1)]]\<rparr>, qp_l = [- 1], qp_u = [1]\<rparr>"

text \<open>
  A kernel for \<open>qp_box\<close> whose solve is exact: it solves the two by two system with
  the matrix that the factorization stands for (\<open>1 + rho\<close> and the slot's diagonal on
  the diagonal, the entry of \<open>C\<close> off the diagonal when the column is present).
\<close>

definition kernel_box :: kernel where
  "kernel_box =
     \<lparr>k_pow = (\<lambda>x y. x powr y),
      k_ldl_solve =
        (\<lambda>ld v. let h = 1 + ld_diag ld ! 0;
                    cc = (if ld_col_nnz ld ! 0 = 0 then 0 else 1);
                    d = ld_diag ld ! 1;
                    det = h * d - cc * cc
                in [(d * v ! 0 - cc * v ! 1) / det, (h * v ! 1 - cc * v ! 0) / det]),
      k_lnz = (\<lambda>cnt i. 0)\<rparr>"

definition ctx_box :: "QPSettings \<Rightarrow> solve_ctx" where
  "ctx_box st =
     \<lparr>c_kernel = kernel_box, c_settings = st, c_precond = Identity, c_qp = qp_box,
      c_qp_scaled = qp_box, c_rho = 1 / 10 ^ 6\<rparr>"

text \<open>The state of the solver on \<open>qp_box\<close> before the first outer iteration.\<close>

definition vars_box :: "QPSettings \<Rightarrow> solver_vars" where
  "vars_box st =
     initial_guess (ctx_box st) (refactorize (ctx_box st) (initial_vars (ctx_box st) [0] [] [0]))"

text \<open>
  The states of the solver on \<open>qp_box\<close> with the default settings: before the first
  outer iteration (\<open>box_s0\<close>), after its convergence test (\<open>box_s2\<close>), before its
  inner loop, after its inner loop (one Newton iteration,
  which activates the inequality, with the step \<open>box_dir\<close>), after the residuals
  that follow it, after \<open>bcl_update\<close>, after the second dual residual, and at its end.
\<close>

definition box_s0 :: solver_vars where
  "box_s0 =
     \<lparr>x_e = [100000000 / 1000001], y_e = [], z_e = [0], mu_eq = 1000, mu_in = 10,
      bcl_eta_ext = (1 / 10) powr (1 / 10), bcl_eta_in = 1,
      active_constraints = [False], kkt_nnz_counts = [0],
      ldl = \<lparr>ld_diag = [1 / 1000000, 1], ld_col_nnz = [0], ld_nnz_counts = [1]\<rparr>,
      new_bcl_mu_eq = 1000, new_bcl_mu_in = 10, x_prev_e = [], y_prev_e = [], z_prev_e = [],
      primal_residual_eq_scaled = [], primal_residual_in_scaled_lo = [],
      primal_residual_in_scaled_up = [], dual_residual_scaled = [],
      primal_feasibility_eq_rhs_0 = 0, primal_feasibility_in_rhs_0 = 0,
      dual_feasibility_rhs_0 = 0, dual_feasibility_rhs_1 = 0, dual_feasibility_rhs_3 = 0\<rparr>"

definition box_s2 :: solver_vars where
  "box_s2 =
     box_s0\<lparr>primal_feasibility_in_rhs_0 := 100000000 / 1000001,
             primal_residual_in_scaled_lo := [98999999 / 1000001],
             primal_residual_in_scaled_up := [100000000 / 1000001],
             dual_feasibility_rhs_0 := 100000000 / 1000001,
             dual_residual_scaled := [- (100 / 1000001)]\<rparr>"

definition box_s3 :: solver_vars where
  "box_s3 =
     box_s0\<lparr>x_prev_e := [100000000 / 1000001], y_prev_e := [], z_prev_e := [0],
             primal_residual_in_scaled_lo := [101000001 / 1000001],
             primal_residual_in_scaled_up := [98999999 / 1000001],
             dual_residual_scaled := [- (100 / 1000001)],
             primal_feasibility_in_rhs_0 := 100000000 / 1000001,
             dual_feasibility_rhs_0 := 100000000 / 1000001\<rparr>"

definition box_s3a :: solver_vars where
  "box_s3a =
     box_s3\<lparr>active_constraints := [True], kkt_nnz_counts := [1],
             ldl := \<lparr>ld_diag = [1 / 1000000, - (1 / 10)], ld_col_nnz = [1],
                      ld_nnz_counts = [1]\<rparr>\<rparr>"

definition box_dir :: newton_dir where
  "box_dir =
     \<lparr>d_dx = [- (989999890000000 / 11000012000001)], d_dy = [],
      d_dz = [990001979999990 / 11000012000001],
      d_Hdx = [- (989999890000000 / 11000012000001)], d_Adx = [],
      d_Cdx = [- (989999890000000 / 11000012000001)], d_ATdy = [0],
      d_CTdz = [990001979999990 / 11000012000001]\<rparr>"

definition box_s4 :: solver_vars where
  "box_s4 =
     box_s3a\<lparr>x_e := [110000210000000 / 11000012000001],
             z_e := [990001979999990 / 11000012000001],
             primal_residual_in_scaled_lo := [121000222000001 / 11000012000001],
             primal_residual_in_scaled_up := [99000197999999 / 11000012000001],
             dual_residual_scaled := [0]\<rparr>"

definition box_s5 :: solver_vars where
  "box_s5 =
     box_s4\<lparr>primal_feasibility_in_rhs_0 := 110000210000000 / 11000012000001,
             primal_residual_in_scaled_lo := [99000197999999 / 11000012000001],
             primal_residual_in_scaled_up := [110000210000000 / 11000012000001]\<rparr>"

definition box_s6 :: solver_vars where
  "box_s6 =
     box_s4\<lparr>primal_feasibility_in_rhs_0 := 110000210000000 / 11000012000001,
             primal_residual_in_scaled_lo := [99000197999999 / 11000012000001],
             primal_residual_in_scaled_up := [110000210000000 / 11000012000001],
             dual_feasibility_rhs_0 := 110000210000000 / 11000012000001,
             dual_feasibility_rhs_3 := 990001979999990 / 11000012000001,
             dual_residual_scaled := [989999890 / 11000012000001]\<rparr>"

definition box_s7 :: solver_vars where
  "box_s7 =
     box_s6\<lparr>z_e := [0],
             bcl_eta_ext := (1 / 10) powr (1 / 10) / 100 powr (1 / 10),
             bcl_eta_in := 1 / 100,
             new_bcl_mu_eq := 10000, new_bcl_mu_in := 100\<rparr>"

definition box_s8 :: solver_vars where
  "box_s8 =
     box_s7\<lparr>dual_feasibility_rhs_3 := 0,
             dual_residual_scaled := [- (990000990000100 / 11000012000001)]\<rparr>"

definition box_s9 :: solver_vars where
  "box_s9 = box_s8\<lparr>mu_eq := 10000, mu_in := 100\<rparr>"

text \<open>
  The box problem without iterative refinement and with three inner iterations: the
  settings, the state before the first outer iteration (\<open>nr_s0\<close>), before its inner
  loop (\<open>nr_s3\<close>), at its end (\<open>nr_s9\<close>), and before the inner loop of the second outer
  iteration (\<open>nr_t3\<close>).
\<close>

definition settings_norefine :: QPSettings where
  "settings_norefine = settings_default\<lparr>max_iter_in := 3, nb_iterative_refinement := 0\<rparr>"

definition nr_s0 :: solver_vars where
  "nr_s0 = box_s0\<lparr>x_e := [0]\<rparr>"

definition nr_s3 :: solver_vars where
  "nr_s3 =
     nr_s0\<lparr>x_prev_e := [0], y_prev_e := [], z_prev_e := [0],
            primal_residual_in_scaled_lo := [1],
            primal_residual_in_scaled_up := [- 1],
            dual_residual_scaled := [- 100]\<rparr>"




text \<open>
  The invariant of the KKT slots: for an active inequality the slot holds its column
  and the factorization was given \<open>-1 / mu_in\<close> for it, for an inactive one the slot is
  empty and the factorization was given 1.
\<close>

definition kkt_slots_coherent :: "solve_ctx \<Rightarrow> solver_vars \<Rightarrow> bool" where
  "kkt_slots_coherent c s \<longleftrightarrow>
     list_all
       (\<lambda>i. if active_constraints s ! i
            then kkt_nnz_counts s ! i = length (cols (qp_CT (c_qp_scaled c)) ! i) \<and>
                 ld_col_nnz (ldl s) ! i = length (cols (qp_CT (c_qp_scaled c)) ! i) \<and>
                 ld_diag (ldl s) ! (c_n c + c_n_eq c + i) = - 1 / mu_in s
            else kkt_nnz_counts s ! i = 0 \<and> ld_col_nnz (ldl s) ! i = 0 \<and>
                 ld_diag (ldl s) ! (c_n c + c_n_eq c + i) = 1)
       [0..<c_n_in c]"


text \<open>
  The states at the heads of the outer iterations: \<open>outer_states c iter n s\<close> is the state
  at the head of outer iteration \<open>iter + n\<close> when the loop is at the head of iteration
  \<open>iter\<close> in state \<open>s\<close> and the \<open>n\<close> iterations in between end neither with an
  error nor by the convergence test.
\<close>

fun outer_states :: "solve_ctx \<Rightarrow> int \<Rightarrow> nat \<Rightarrow> solver_vars \<Rightarrow> solver_vars option" where
  "outer_states c iter 0 s = Some s"
| "outer_states c iter (Suc n) s =
     (case outer_iteration c iter s of
        Inr (Next s') \<Rightarrow> outer_states c (iter + 1) n s'
      | _ \<Rightarrow> None)"

text \<open>
  An infeasible model with one variable and one equality: minimize \<open>g0 x\<close> subject to
  \<open>0 x = 1\<close>. \<open>H\<close> has no stored entry and the row of \<open>A\<close> is empty, so the KKT matrix
  is diagonal, and the solve of \<open>kernel_diag\<close> divides by the diagonal that the
  factorization was given.
\<close>

definition qp_stuck :: "real \<Rightarrow> qp_view" where
  "qp_stuck g0 =
     \<lparr>qp_H = \<lparr>nrows = 1, cols = [[]]\<rparr>, qp_g = [g0],
      qp_AT = \<lparr>nrows = 1, cols = [[]]\<rparr>, qp_b = [1],
      qp_CT = \<lparr>nrows = 1, cols = []\<rparr>, qp_l = [], qp_u = []\<rparr>"

definition kernel_diag :: kernel where
  "kernel_diag =
     \<lparr>k_pow = (\<lambda>x y. x powr y),
      k_ldl_solve = (\<lambda>ld v. map2 (\<lambda>a d. a / d) v (ld_diag ld)),
      k_lnz = (\<lambda>cnt i. 0)\<rparr>"

definition ctx_stuck :: "real \<Rightarrow> solve_ctx" where
  "ctx_stuck g0 =
     \<lparr>c_kernel = kernel_diag, c_settings = settings_default, c_precond = Identity,
      c_qp = qp_stuck g0, c_qp_scaled = qp_stuck g0, c_rho = 1 / 10 ^ 6\<rparr>"

text \<open>The state of the solver on \<open>qp_stuck g0\<close> before the first outer iteration.\<close>

definition vars_stuck :: "real \<Rightarrow> solver_vars" where
  "vars_stuck g0 =
     initial_guess (ctx_stuck g0)
       (refactorize (ctx_stuck g0) (initial_vars (ctx_stuck g0) [0] [0] []))"

text \<open>
  The iterates of the refinement when no pass stops it: \<open>refine_sol c s rhs j\<close> is the
  solution after \<open>j\<close> passes. \<open>monitored_norm\<close> is the norm that pass \<open>j\<close> compares, the
  norm of the block \<open>err_z\<close> of its residual.
\<close>

fun refine_sol :: "solve_ctx \<Rightarrow> solver_vars \<Rightarrow> vec \<Rightarrow> nat \<Rightarrow> vec" where
  "refine_sol c s rhs 0 = replicate (c_n c + c_n_eq c + c_n_in c) 0"
| "refine_sol c s rhs (Suc j) =
     (case kkt_residual c s rhs (refine_sol c s rhs j) j of (err_x, err_y, err_z) \<Rightarrow>
        vsub (refine_sol c s rhs j)
          (k_ldl_solve (c_kernel c) (ldl s) (err_x @ err_y @ err_z)))"




text \<open>
  The invariant behind the assertion of \<open>add_row\<close>: the bookkeeping of the slots has
  one entry for each inequality, the factorization was given the column counts of
  \<open>kkt_active\<close>, and the slot of an inactive inequality is empty, with a column of \<open>L\<close>
  that holds the diagonal entry only.
\<close>

definition slots_ok :: "solve_ctx \<Rightarrow> solver_vars \<Rightarrow> bool" where
  "slots_ok c s \<longleftrightarrow>
     length (active_constraints s) = c_n_in c \<and>
     length (kkt_nnz_counts s) = c_n_in c \<and>
     ld_col_nnz (ldl s) = kkt_nnz_counts s \<and>
     length (ld_nnz_counts (ldl s)) = c_n_in c \<and>
     list_all (\<lambda>i. active_constraints s ! i \<or>
                    (kkt_nnz_counts s ! i = 0 \<and> ld_nnz_counts (ldl s) ! i = 1))
       [0..<c_n_in c]"

text \<open>The part of the state that the row modifications and \<open>refactorize\<close> work on.\<close>

definition same_slots :: "solver_vars \<Rightarrow> solver_vars \<Rightarrow> bool" where
  "same_slots s s' \<longleftrightarrow>
     active_constraints s' = active_constraints s \<and>
     kkt_nnz_counts s' = kkt_nnz_counts s \<and> ldl s' = ldl s"

section \<open>Norms and scalings of the equilibration\<close>

lemma infty_norm_ge0: "0 \<le> infty_norm v"
  by (induction v) auto

lemma nonneg_vec_update: "nonneg_vec n rn \<Longrightarrow> 0 \<le> v \<Longrightarrow> nonneg_vec n (rn[i := v])"
  by (cases "i < length rn") (auto simp: nonneg_vec_def nth_list_update)

lemma nonneg_vec_replicate: "nonneg_vec n (replicate n 0)"
  by (simp add: nonneg_vec_def)

lemma nonneg_vec_nth: "nonneg_vec n v \<Longrightarrow> k < n \<Longrightarrow> 0 \<le> v ! k"
  by (simp add: nonneg_vec_def)

lemma fold_update_max_nonneg:
  "nonneg_vec n rn \<Longrightarrow> nonneg_vec n (fold (\<lambda>(i, mx) rn. rn[i := max (rn ! i) \<bar>mx\<bar>]) col rn)"
  by (rule fold_invariant[where Q = "\<lambda>_. True"]) (auto intro!: nonneg_vec_update)

lemma rowwise_infty_norm_nonneg:
  "nonneg_vec n rn \<Longrightarrow> nonneg_vec n (rowwise_infty_norm rn m)"
  unfolding rowwise_infty_norm_def
  by (rule fold_invariant[where Q = "\<lambda>_. True"]) (auto intro!: fold_update_max_nonneg)

lemma fold_max_abs_ge0: "0 \<le> nj \<Longrightarrow> (0::real) \<le> fold (\<lambda>(i, hx) nj. max nj \<bar>hx\<bar>) col nj"
  by (rule fold_invariant[where Q = "\<lambda>_. True"]) auto

lemma col_infty_norm_ge0: "0 \<le> col_infty_norm col"
  unfolding col_infty_norm_def by (rule fold_max_abs_ge0) simp

lemma symhi_col_norm_nonneg: "nonneg_vec n cn \<Longrightarrow> nonneg_vec n (symhi_col_norm j col cn)"
  unfolding symhi_col_norm_def Let_def
  by (intro nonneg_vec_update fold_update_max_nonneg fold_max_abs_ge0) simp_all

lemma symlo_col_norm_nonneg: "nonneg_vec n cn \<Longrightarrow> nonneg_vec n (symlo_col_norm j col cn)"
  unfolding symlo_col_norm_def Let_def
  by (intro nonneg_vec_update fold_update_max_nonneg)
    (simp_all add: fold_max_abs_ge0 le_max_iff_disj)

lemma colwise_infty_norm_symhi_nonneg:
  "nonneg_vec n cn \<Longrightarrow> nonneg_vec n (colwise_infty_norm_symhi cn h)"
  unfolding colwise_infty_norm_symhi_def
  by (rule fold_invariant[where Q = "\<lambda>_. True"]) (auto intro!: symhi_col_norm_nonneg)

lemma colwise_infty_norm_symlo_nonneg:
  "nonneg_vec n cn \<Longrightarrow> nonneg_vec n (colwise_infty_norm_symlo cn h)"
  unfolding colwise_infty_norm_symlo_def
  by (rule fold_invariant[where Q = "\<lambda>_. True"]) (auto intro!: symlo_col_norm_nonneg)

lemma colwise_infty_norm_nonneg:
  "nonneg_vec n cn \<Longrightarrow> nonneg_vec n (colwise_infty_norm symm cn h)"
  by (cases symm)
    (simp_all add: colwise_infty_norm_def colwise_infty_norm_symhi_nonneg
       colwise_infty_norm_symlo_nonneg)

lemma machine_eps_pos: "0 < machine_eps"
  by (simp add: machine_eps_def)

lemma ruiz_delta_entry_pos: "0 \<le> m \<Longrightarrow> 0 < 1 / (machine_eps + sqrt m)"
proof -
  assume "0 \<le> m"
  then have "0 \<le> sqrt m" by simp
  then have "0 < machine_eps + sqrt m" using machine_eps_pos by linarith
  then show ?thesis by simp
qed

lemma list_all_pos_vmul:
  "list_all (\<lambda>d. 0 < d) xs \<Longrightarrow> list_all (\<lambda>d. 0 < d) ys \<Longrightarrow>
   list_all (\<lambda>d. (0::real) < d) (vmul xs ys)"
  unfolding vmul_def
proof (induction xs arbitrary: ys)
  case Nil
  then show ?case by simp
next
  case (Cons x xs)
  then show ?case by (cases ys) simp_all
qed

lemma ruiz_round_delta_pos: "list_all (\<lambda>d. 0 < d) (ruiz_round_delta symm qp)"
proof -
  let ?n = "nrows (qp_H qp)"
  have h: "nonneg_vec ?n (colwise_infty_norm symm (replicate ?n 0) (qp_H qp))"
    by (intro colwise_infty_norm_nonneg nonneg_vec_replicate)
  have m: "0 \<le> max (colwise_infty_norm symm (replicate ?n 0) (qp_H qp) ! j) m"
    if "j < ?n" for j m
    using nonneg_vec_nth[OF h that] by (simp add: le_max_iff_disj)
  show ?thesis
    unfolding ruiz_round_delta_def Let_def
    by (auto simp: list_all_iff intro!: ruiz_delta_entry_pos col_infty_norm_ge0 m)
qed

lemma ruiz_gamma_pos: "0 < ruiz_gamma symm h"
  by (simp add: ruiz_gamma_def Let_def)

lemma ruiz_round_pos: "ruiz_round symm v = Some v' \<Longrightarrow> ruiz_pos v \<Longrightarrow> ruiz_pos v'"
  using ruiz_round_delta_pos[of symm "rz_qp v"] ruiz_gamma_pos
  by (auto simp: ruiz_round_def Let_def ruiz_pos_def split: if_splits
      intro: list_all_pos_vmul)

lemma ruiz_loop_pos:
  assumes a: "ruiz_loop epsilon mi symm v = Some v'"
  shows "ruiz_pos v \<longrightarrow> ruiz_pos v'"
proof (rule ruiz_loop.raw_induct[where P = "\<lambda>e m s v v'. ruiz_pos v \<longrightarrow> ruiz_pos v'", OF _ a],
    goal_cases)
  case (1 rl epsilon mi symm v v')
  show ?case
  proof
    assume p: "ruiz_pos v"
    show "ruiz_pos v'"
    proof (cases "infty_norm (map (\<lambda>d. 1 - d) (rz_delta v)) > epsilon \<and> rz_iter v \<noteq> mi")
      case True
      with 1(2) obtain w where w: "ruiz_round symm (v\<lparr>rz_iter := rz_iter v + 1\<rparr>) = Some w"
        and l: "rl epsilon mi symm w = Some v'"
        by (auto simp: bind_eq_Some_conv)
      have "ruiz_pos (v\<lparr>rz_iter := rz_iter v + 1\<rparr>)" using p by (simp add: ruiz_pos_def)
      from ruiz_round_pos[OF w this] have "ruiz_pos w" .
      with 1(1)[OF l] show ?thesis by blast
    next
      case False
      with 1(2) have "v' = v" by (auto split: if_splits)
      then show ?thesis using p by simp
    qed
  qed
qed

lemma map2_round_trip:
  "(\<And>x d. d \<in> set ds \<Longrightarrow> f (g x d) d = x) \<Longrightarrow> length xs \<le> length ds \<Longrightarrow>
   map2 f (map2 g xs ds) ds = xs"
proof (induction xs arbitrary: ds)
  case Nil
  then show ?case by simp
next
  case (Cons x xs)
  then show ?case by (cases ds) auto
qed

section \<open>Scaling and unscaling\<close>

lemma scale_qp_in_place_pos:
  assumes "scale_qp_in_place p qp = Some (Ruiz r', qp')"
  shows "list_all (\<lambda>d. 0 < d) (ruiz_delta r') \<and> 0 < ruiz_c r'"
proof (cases p)
  case (Ruiz r)
  with assms obtain v where v: "ruiz_loop (ruiz_epsilon r) (ruiz_max_iter r) (ruiz_symm r)
        (ruiz_init (replicate (length (ruiz_delta r)) 1) qp) = Some v"
    and r': "r' = r\<lparr>ruiz_delta := rz_S v, ruiz_c := rz_c v\<rparr>"
    by (auto simp: ruiz_scale_qp_in_place_def)
  have "ruiz_pos (ruiz_init (replicate (length (ruiz_delta r)) 1) qp)"
    by (simp add: ruiz_pos_def ruiz_init_def list_all_iff)
  with ruiz_loop_pos[OF v] have "ruiz_pos v" by blast
  then show ?thesis by (simp add: r' ruiz_pos_def)
next
  case Identity
  with assms show ?thesis by simp
qed

lemma list_all_take: "list_all P xs \<Longrightarrow> list_all P (take k xs)"
  by (auto simp: list_all_iff dest: in_set_takeD)

lemma list_all_drop: "list_all P xs \<Longrightarrow> list_all P (drop k xs)"
  by (auto simp: list_all_iff dest: in_set_dropD)

lemma pos_set: "list_all (\<lambda>d. (0::real) < d) ds \<Longrightarrow> d \<in> set ds \<Longrightarrow> d \<noteq> 0"
  by (auto simp: list_all_iff)

text \<open>
  C9: for a scaling state produced by the equilibration (or the identity
  preconditioner), unscaling after scaling and scaling after unscaling return the
  vector, for primal vectors, equality duals and inequality duals of the sizes the
  operations require.
\<close>

theorem scale_unscale_round_trip:
  assumes "scale_qp_in_place p qp = Some (p', qp')"
    and "fits_primal p' x" and "fits_dual_eq p' y" and "fits_dual_in p' z"
  shows "unscale_primal_in_place p' (scale_primal_in_place p' x) = x
       \<and> scale_primal_in_place p' (unscale_primal_in_place p' x) = x
       \<and> unscale_dual_in_place_eq p' (scale_dual_in_place_eq p' y) = y
       \<and> scale_dual_in_place_eq p' (unscale_dual_in_place_eq p' y) = y
       \<and> unscale_dual_in_place_in p' (scale_dual_in_place_in p' z) = z
       \<and> scale_dual_in_place_in p' (unscale_dual_in_place_in p' z) = z"
proof (cases p')
  case Identity
  then show ?thesis by simp
next
  case (Ruiz r)
  from scale_qp_in_place_pos[OF assms(1)[unfolded Ruiz]]
  have pos: "list_all (\<lambda>d. 0 < d) (ruiz_delta r)" and c: "ruiz_c r \<noteq> 0" by auto
  have h: "list_all (\<lambda>d. 0 < d) (delta_head r)" 
    and m: "list_all (\<lambda>d. 0 < d) (delta_middleRows r k)"
    and t: "list_all (\<lambda>d. 0 < d) (delta_tail r k)" for k
    using pos by (simp_all add: delta_head_def delta_middleRows_def delta_tail_def list_all_take list_all_drop)
  have lx: "length x \<le> length (delta_head r)" 
    using assms(2) by (simp add: Ruiz delta_head_def)
  have ly: "length y \<le> length (delta_middleRows r (length y))"
    using assms(3) by (simp add: Ruiz delta_middleRows_def)
  have lz: "length z \<le> length (delta_tail r (length z))"
    using assms(4) by (simp add: Ruiz delta_tail_def)
  have 1: "unscale_primal_in_place p' (scale_primal_in_place p' x) = x"
    unfolding Ruiz by (simp add: vmul_def vdiv_def, rule map2_round_trip[OF _ lx]) (use pos_set[OF h] in simp)
  have 2: "scale_primal_in_place p' (unscale_primal_in_place p' x) = x"
    unfolding Ruiz by (simp add: vmul_def vdiv_def, rule map2_round_trip[OF _ lx]) (use pos_set[OF h] in simp)
  have 3: "unscale_dual_in_place_eq p' (scale_dual_in_place_eq p' y) = y"
    unfolding Ruiz using ly by (simp, intro map2_round_trip[OF _ ly]) (use pos_set[OF m] c in simp)
  have 4: "scale_dual_in_place_eq p' (unscale_dual_in_place_eq p' y) = y"
    unfolding Ruiz using ly by (simp, intro map2_round_trip[OF _ ly]) (use pos_set[OF m] c in simp)
  have 5: "unscale_dual_in_place_in p' (scale_dual_in_place_in p' z) = z"
    unfolding Ruiz using lz by (simp, intro map2_round_trip[OF _ lz]) (use pos_set[OF t] c in simp)
  have 6: "scale_dual_in_place_in p' (unscale_dual_in_place_in p' z) = z"
    unfolding Ruiz using lz by (simp, intro map2_round_trip[OF _ lz]) (use pos_set[OF t] c in simp)
  from 1 2 3 4 5 6 show ?thesis by blast
qed

lemmas ruiz_eval_defs =
  RuizEquilibration_default_def RuizEquilibration_new_def
  ruiz_scale_qp_in_place_def ruiz_init_def ruiz_round_def ruiz_round_delta_def
  ruiz_normalize_def ruiz_gamma_def Let_def ncols_def
  rowwise_infty_norm_def colwise_infty_norm_def colwise_infty_norm_symhi_def symhi_col_norm_def
  col_infty_norm_def normalize_cols_def normalize_H_def normalize_H_col_def scale_values_def
  vmul_def vscale_def machine_eps_def

theorem scale_unscale_round_trip_witness:
  "\<exists>p' qp'. scale_qp_in_place (Ruiz (RuizEquilibration_default 1 2)) qp_unit = Some (p', qp')
     \<and> fits_primal p' [3] \<and> fits_dual_eq p' [5] \<and> fits_dual_in p' [7]
     \<and> unscale_primal_in_place p' (scale_primal_in_place p' [3]) = [3]
     \<and> scale_primal_in_place p' (unscale_primal_in_place p' [3]) = [3]
     \<and> unscale_dual_in_place_eq p' (scale_dual_in_place_eq p' [5]) = [5]
     \<and> scale_dual_in_place_eq p' (unscale_dual_in_place_eq p' [5]) = [5]
     \<and> unscale_dual_in_place_in p' (scale_dual_in_place_in p' [7]) = [7]
     \<and> scale_dual_in_place_in p' (unscale_dual_in_place_in p' [7]) = [7]"
proof -
  have "\<exists>p' qp'. scale_qp_in_place (Ruiz (RuizEquilibration_default 1 2)) qp_unit = Some (p', qp')
     \<and> fits_primal p' [3] \<and> fits_dual_eq p' [5] \<and> fits_dual_in p' [7]"
    by (simp add: qp_unit_def ruiz_eval_defs ruiz_loop.simps)
  then obtain p' qp' where
    s: "scale_qp_in_place (Ruiz (RuizEquilibration_default 1 2)) qp_unit = Some (p', qp')"
    and f: "fits_primal p' [3]" "fits_dual_eq p' [5]" "fits_dual_in p' [7]"
    by blast
  from scale_unscale_round_trip[OF s f] s f show ?thesis by blast
qed

section \<open>The rounds of the equilibration\<close>


section \<open>The inner loop leaves penalties and snapshots alone\<close>

lemma same_params_refl [simp]: "same_params s s"
  by (simp add: same_params_def)

lemma same_params_trans: "same_params s s' \<Longrightarrow> same_params s' s'' \<Longrightarrow> same_params s s''"
  by (simp add: same_params_def)

lemma refactorize_params [simp]: "same_params s (refactorize c s)"
  by (simp add: same_params_def refactorize_def)

lemma active_set_step_params:
  "active_set_step c na i (s, ch) = Inr (s', ch') \<Longrightarrow> same_params s s'"
  by (auto simp: active_set_step_def Let_def bind_err_def same_params_def
      split: if_splits sum.splits)

lemma active_set_sweep_params:
  "active_set_sweep c na idxs (s, ch) = Inr (s', ch') \<Longrightarrow> same_params s s'"
proof (induction idxs arbitrary: s ch)
  case Nil
  then show ?case by simp
next
  case (Cons i idxs)
  from Cons.prems obtain s1 ch1 where
    1: "active_set_step c na i (s, ch) = Inr (s1, ch1)"
    and 2: "active_set_sweep c na idxs (s1, ch1) = Inr (s', ch')"
    by (auto simp: bind_err_def split: sum.splits)
  from active_set_step_params[OF 1] Cons.IH[OF 2] show ?case
    by (rule same_params_trans)
qed

lemma active_set_change_params:
  "active_set_change c s na = Inr s' \<Longrightarrow> same_params s s'"
  by (auto simp: active_set_change_def bind_err_def split: if_splits sum.splits
      dest!: active_set_sweep_params intro: same_params_trans)

lemma take_step_params [simp]: "same_params s (take_step c s d alpha)"
  by (simp add: same_params_def take_step_def)

lemma newton_iteration_params:
  "newton_iteration c iter s = Inr (Exit e s') \<or> newton_iteration c iter s = Inr (Continue s')
   \<Longrightarrow> same_params s s'"
  by (auto simp: newton_iteration_def bind_err_def Let_def split: sum.splits fl.splits if_splits
      dest!: active_set_change_params intro: same_params_trans)

lemma newton_loop_params:
  "newton_loop c iter left k s = Inr (e, k', s') \<Longrightarrow> same_params s s'"
proof (induction left arbitrary: k s)
  case 0
  then show ?case by simp
next
  case (Suc left)
  from Suc.prems obtain r where r: "newton_iteration c iter s = Inr r"
    and rest: "(case r of Exit e s' \<Rightarrow> Inr (e, Suc k, s')
                | Continue s1 \<Rightarrow> newton_loop c iter left (Suc k) s1) = Inr (e, k', s')"
    by (auto simp: bind_err_def split: sum.splits)
  show ?case
  proof (cases r)
    case (Exit e1 s1)
    with r rest show ?thesis using newton_iteration_params[of c iter s e1 s1] by auto
  next
    case (Continue s1)
    with r rest have "same_params s s1" "newton_loop c iter left (Suc k) s1 = Inr (e, k', s')"
      using newton_iteration_params[of c iter s e s1] by auto
    with Suc.IH show ?thesis by (blast intro: same_params_trans)
  qed
qed

lemma unscaled_primal_residual_params: "same_params s (fst (unscaled_primal_residual c s))"
  by (simp add: unscaled_primal_residual_def Let_def same_params_def)

lemma unscaled_dual_residual_params: "same_params s (fst (unscaled_dual_residual c s))"
  by (simp add: unscaled_dual_residual_def Let_def same_params_def)

lemma unscaled_primal_residual_iterates:
  "x_e (fst (unscaled_primal_residual c s)) = x_e s \<and>
   y_e (fst (unscaled_primal_residual c s)) = y_e s \<and>
   z_e (fst (unscaled_primal_residual c s)) = z_e s"
  by (simp add: unscaled_primal_residual_def Let_def)

lemma unscaled_dual_residual_iterates:
  "x_e (fst (unscaled_dual_residual c s)) = x_e s \<and>
   y_e (fst (unscaled_dual_residual c s)) = y_e s \<and>
   z_e (fst (unscaled_dual_residual c s)) = z_e s"
  by (simp add: unscaled_dual_residual_def Let_def)

section \<open>The first outer iteration on the box problem\<close>

text \<open>
  The solver on \<open>qp_box\<close> with the default settings, evaluated stage by stage.
\<close>

lemmas vec_eval_defs =
  vneg_def vadd_def vsub_def vscale_def vmul_def vdiv_def dot_def squaredNorm_def
  positive_part_def negative_part_def select_def
  symhi_mul_def symhi_entry_def mat_mul_def tr_mul_def col_dot_def col_axpy_def

lemma ldl_iter_solve_loop_numeral:
  "ldl_iter_solve_loop c s rhs (numeral m) solve_iter prev_err_norm sol =
     (case kkt_residual c s rhs sol solve_iter of (err_x, err_y, err_z) \<Rightarrow>
        if (case prev_err_norm of None \<Rightarrow> False | Some pe \<Rightarrow> infty_norm err_z > pe)
        then (sol, solve_iter)
        else ldl_iter_solve_loop c s rhs (pred_numeral m) (solve_iter + 1)
               (Some (infty_norm err_z))
               (vsub sol (k_ldl_solve (c_kernel c) (ldl s) (err_x @ err_y @ err_z))))"
  by (subst numeral_eq_Suc) (rule ldl_iter_solve_loop.simps(2))

lemma newton_loop_numeral:
  "newton_loop c iter (numeral m) iter_inner s =
     bind_err (newton_iteration c iter s)
       (\<lambda>r. case r of
               Exit e s' \<Rightarrow> Inr (e, iter_inner + 1, s')
             | Continue s' \<Rightarrow> newton_loop c iter (pred_numeral m) (iter_inner + 1) s')"
  by (subst numeral_eq_Suc) (rule newton_loop.simps(2))

lemma ctx_box_simps:
  "c_kernel (ctx_box st) = kernel_box" "c_settings (ctx_box st) = st"
  "c_precond (ctx_box st) = Identity" "c_qp (ctx_box st) = qp_box"
  "c_qp_scaled (ctx_box st) = qp_box" "c_rho (ctx_box st) = 1 / 10 ^ 6"
  "c_n (ctx_box st) = 1" "c_n_eq (ctx_box st) = 0" "c_n_in (ctx_box st) = 1"
  by (simp_all add: ctx_box_def c_n_def c_n_eq_def c_n_in_def ncols_def qp_box_def)

lemma qp_box_simps:
  "qp_H qp_box = \<lparr>nrows = 1, cols = [[(0, 1)]]\<rparr>" "qp_g qp_box = [- 100]"
  "qp_AT qp_box = \<lparr>nrows = 1, cols = []\<rparr>" "qp_b qp_box = []"
  "qp_CT qp_box = \<lparr>nrows = 1, cols = [[(0, 1)]]\<rparr>" "qp_l qp_box = [- 1]" "qp_u qp_box = [1]"
  by (simp_all add: qp_box_def)

lemma kernel_box_simps:
  "k_pow kernel_box x y = x powr y"
  "k_lnz kernel_box cnt i = 0"
  "k_ldl_solve kernel_box ld [v0, v1] =
     [(ld_diag ld ! 1 * v0 - (if ld_col_nnz ld ! 0 = 0 then 0 else 1) * v1)
        / ((1 + ld_diag ld ! 0) * ld_diag ld ! 1
           - (if ld_col_nnz ld ! 0 = 0 then 0 else 1) * (if ld_col_nnz ld ! 0 = 0 then 0 else 1)),
      ((1 + ld_diag ld ! 0) * v1 - (if ld_col_nnz ld ! 0 = 0 then 0 else 1) * v0)
        / ((1 + ld_diag ld ! 0) * ld_diag ld ! 1
           - (if ld_col_nnz ld ! 0 = 0 then 0 else 1) * (if ld_col_nnz ld ! 0 = 0 then 0 else 1))]"
  by (simp_all add: kernel_box_def Let_def)

lemma settings_default_simps:
  "alpha_bcl settings_default = 1 / 10" "beta_bcl settings_default = 9 / 10"
  "mu_max_eq settings_default = 10 ^ 10" "mu_max_in settings_default = 10 ^ 8"
  "mu_update_factor settings_default = 10" "cold_reset_mu_eq settings_default = 11 / 10"
  "cold_reset_mu_in settings_default = 11 / 10" "max_iter settings_default = 10000"
  "max_iter_in settings_default = 1500" "eps_abs settings_default = 1 / 10 ^ 9"
  "eps_rel settings_default = 0" "nb_iterative_refinement settings_default = 5"
  "warm_start settings_default = False"
  by (simp_all add: settings_default_def)

lemmas box_simps = ctx_box_simps qp_box_simps kernel_box_simps settings_default_simps

lemma box_initial: "vars_box settings_default = box_s0"
  by (simp add: vars_box_def box_s0_def initial_guess_def initial_vars_def refactorize_def
      ldl_counts_def ldl_col_count_def ldl_solve_in_place_def ldl_iter_solve_noalias_def
      kkt_residual_def C_active_T_def box_simps vec_eval_defs Let_def bcl_eta_ext_init_def
      ldl_iter_solve_loop_numeral)

lemma box_s0_fields:
  "x_e box_s0 = [100000000 / 1000001]"
  "y_e box_s0 = []"
  "z_e box_s0 = [0]"
  "mu_eq box_s0 = 1000"
  "mu_in box_s0 = 10"
  "bcl_eta_ext box_s0 = (1 / 10) powr (1 / 10)"
  "bcl_eta_in box_s0 = 1"
  "active_constraints box_s0 = [False]"
  "kkt_nnz_counts box_s0 = [0]"
  "ldl box_s0 = \<lparr>ld_diag = [1 / 1000000, 1], ld_col_nnz = [0], ld_nnz_counts = [1]\<rparr>"
  "new_bcl_mu_eq box_s0 = 1000"
  "new_bcl_mu_in box_s0 = 10"
  "x_prev_e box_s0 = []"
  "y_prev_e box_s0 = []"
  "z_prev_e box_s0 = []"
  "primal_residual_eq_scaled box_s0 = []"
  "primal_residual_in_scaled_lo box_s0 = []"
  "primal_residual_in_scaled_up box_s0 = []"
  "dual_residual_scaled box_s0 = []"
  "primal_feasibility_eq_rhs_0 box_s0 = 0"
  "primal_feasibility_in_rhs_0 box_s0 = 0"
  "dual_feasibility_rhs_0 box_s0 = 0"
  "dual_feasibility_rhs_1 box_s0 = 0"
  "dual_feasibility_rhs_3 box_s0 = 0"
  by (simp_all add: box_s0_def)

lemma box_s2_fields:
  "x_e box_s2 = [100000000 / 1000001]"
  "y_e box_s2 = []"
  "z_e box_s2 = [0]"
  "mu_eq box_s2 = 1000"
  "mu_in box_s2 = 10"
  "bcl_eta_ext box_s2 = (1 / 10) powr (1 / 10)"
  "bcl_eta_in box_s2 = 1"
  "active_constraints box_s2 = [False]"
  "kkt_nnz_counts box_s2 = [0]"
  "ldl box_s2 = \<lparr>ld_diag = [1 / 1000000, 1], ld_col_nnz = [0], ld_nnz_counts = [1]\<rparr>"
  "new_bcl_mu_eq box_s2 = 1000"
  "new_bcl_mu_in box_s2 = 10"
  "x_prev_e box_s2 = []"
  "y_prev_e box_s2 = []"
  "z_prev_e box_s2 = []"
  "primal_residual_eq_scaled box_s2 = []"
  "primal_residual_in_scaled_lo box_s2 = [98999999 / 1000001]"
  "primal_residual_in_scaled_up box_s2 = [100000000 / 1000001]"
  "dual_residual_scaled box_s2 = [- (100 / 1000001)]"
  "primal_feasibility_eq_rhs_0 box_s2 = 0"
  "primal_feasibility_in_rhs_0 box_s2 = 100000000 / 1000001"
  "dual_feasibility_rhs_0 box_s2 = 100000000 / 1000001"
  "dual_feasibility_rhs_1 box_s2 = 0"
  "dual_feasibility_rhs_3 box_s2 = 0"
  by (simp_all add: box_s2_def box_s0_def)

lemma box_s3_fields:
  "x_e box_s3 = [100000000 / 1000001]"
  "y_e box_s3 = []"
  "z_e box_s3 = [0]"
  "mu_eq box_s3 = 1000"
  "mu_in box_s3 = 10"
  "bcl_eta_ext box_s3 = (1 / 10) powr (1 / 10)"
  "bcl_eta_in box_s3 = 1"
  "active_constraints box_s3 = [False]"
  "kkt_nnz_counts box_s3 = [0]"
  "ldl box_s3 = \<lparr>ld_diag = [1 / 1000000, 1], ld_col_nnz = [0], ld_nnz_counts = [1]\<rparr>"
  "new_bcl_mu_eq box_s3 = 1000"
  "new_bcl_mu_in box_s3 = 10"
  "x_prev_e box_s3 = [100000000 / 1000001]"
  "y_prev_e box_s3 = []"
  "z_prev_e box_s3 = [0]"
  "primal_residual_eq_scaled box_s3 = []"
  "primal_residual_in_scaled_lo box_s3 = [101000001 / 1000001]"
  "primal_residual_in_scaled_up box_s3 = [98999999 / 1000001]"
  "dual_residual_scaled box_s3 = [- (100 / 1000001)]"
  "primal_feasibility_eq_rhs_0 box_s3 = 0"
  "primal_feasibility_in_rhs_0 box_s3 = 100000000 / 1000001"
  "dual_feasibility_rhs_0 box_s3 = 100000000 / 1000001"
  "dual_feasibility_rhs_1 box_s3 = 0"
  "dual_feasibility_rhs_3 box_s3 = 0"
  by (simp_all add: box_s3_def box_s0_def)

lemma box_s3a_fields:
  "x_e box_s3a = [100000000 / 1000001]"
  "y_e box_s3a = []"
  "z_e box_s3a = [0]"
  "mu_eq box_s3a = 1000"
  "mu_in box_s3a = 10"
  "bcl_eta_ext box_s3a = (1 / 10) powr (1 / 10)"
  "bcl_eta_in box_s3a = 1"
  "active_constraints box_s3a = [True]"
  "kkt_nnz_counts box_s3a = [1]"
  "ldl box_s3a = \<lparr>ld_diag = [1 / 1000000, - (1 / 10)], ld_col_nnz = [1], ld_nnz_counts = [1]\<rparr>"
  "new_bcl_mu_eq box_s3a = 1000"
  "new_bcl_mu_in box_s3a = 10"
  "x_prev_e box_s3a = [100000000 / 1000001]"
  "y_prev_e box_s3a = []"
  "z_prev_e box_s3a = [0]"
  "primal_residual_eq_scaled box_s3a = []"
  "primal_residual_in_scaled_lo box_s3a = [101000001 / 1000001]"
  "primal_residual_in_scaled_up box_s3a = [98999999 / 1000001]"
  "dual_residual_scaled box_s3a = [- (100 / 1000001)]"
  "primal_feasibility_eq_rhs_0 box_s3a = 0"
  "primal_feasibility_in_rhs_0 box_s3a = 100000000 / 1000001"
  "dual_feasibility_rhs_0 box_s3a = 100000000 / 1000001"
  "dual_feasibility_rhs_1 box_s3a = 0"
  "dual_feasibility_rhs_3 box_s3a = 0"
  by (simp_all add: box_s3a_def box_s3_def box_s0_def)

lemma box_s4_fields:
  "x_e box_s4 = [110000210000000 / 11000012000001]"
  "y_e box_s4 = []"
  "z_e box_s4 = [990001979999990 / 11000012000001]"
  "mu_eq box_s4 = 1000"
  "mu_in box_s4 = 10"
  "bcl_eta_ext box_s4 = (1 / 10) powr (1 / 10)"
  "bcl_eta_in box_s4 = 1"
  "active_constraints box_s4 = [True]"
  "kkt_nnz_counts box_s4 = [1]"
  "ldl box_s4 = \<lparr>ld_diag = [1 / 1000000, - (1 / 10)], ld_col_nnz = [1], ld_nnz_counts = [1]\<rparr>"
  "new_bcl_mu_eq box_s4 = 1000"
  "new_bcl_mu_in box_s4 = 10"
  "x_prev_e box_s4 = [100000000 / 1000001]"
  "y_prev_e box_s4 = []"
  "z_prev_e box_s4 = [0]"
  "primal_residual_eq_scaled box_s4 = []"
  "primal_residual_in_scaled_lo box_s4 = [121000222000001 / 11000012000001]"
  "primal_residual_in_scaled_up box_s4 = [99000197999999 / 11000012000001]"
  "dual_residual_scaled box_s4 = [0]"
  "primal_feasibility_eq_rhs_0 box_s4 = 0"
  "primal_feasibility_in_rhs_0 box_s4 = 100000000 / 1000001"
  "dual_feasibility_rhs_0 box_s4 = 100000000 / 1000001"
  "dual_feasibility_rhs_1 box_s4 = 0"
  "dual_feasibility_rhs_3 box_s4 = 0"
  by (simp_all add: box_s4_def box_s3a_def box_s3_def box_s0_def)

lemma box_s5_fields:
  "x_e box_s5 = [110000210000000 / 11000012000001]"
  "y_e box_s5 = []"
  "z_e box_s5 = [990001979999990 / 11000012000001]"
  "mu_eq box_s5 = 1000"
  "mu_in box_s5 = 10"
  "bcl_eta_ext box_s5 = (1 / 10) powr (1 / 10)"
  "bcl_eta_in box_s5 = 1"
  "active_constraints box_s5 = [True]"
  "kkt_nnz_counts box_s5 = [1]"
  "ldl box_s5 = \<lparr>ld_diag = [1 / 1000000, - (1 / 10)], ld_col_nnz = [1], ld_nnz_counts = [1]\<rparr>"
  "new_bcl_mu_eq box_s5 = 1000"
  "new_bcl_mu_in box_s5 = 10"
  "x_prev_e box_s5 = [100000000 / 1000001]"
  "y_prev_e box_s5 = []"
  "z_prev_e box_s5 = [0]"
  "primal_residual_eq_scaled box_s5 = []"
  "primal_residual_in_scaled_lo box_s5 = [99000197999999 / 11000012000001]"
  "primal_residual_in_scaled_up box_s5 = [110000210000000 / 11000012000001]"
  "dual_residual_scaled box_s5 = [0]"
  "primal_feasibility_eq_rhs_0 box_s5 = 0"
  "primal_feasibility_in_rhs_0 box_s5 = 110000210000000 / 11000012000001"
  "dual_feasibility_rhs_0 box_s5 = 100000000 / 1000001"
  "dual_feasibility_rhs_1 box_s5 = 0"
  "dual_feasibility_rhs_3 box_s5 = 0"
  by (simp_all add: box_s5_def box_s4_def box_s3a_def box_s3_def box_s0_def)

lemma box_s6_fields:
  "x_e box_s6 = [110000210000000 / 11000012000001]"
  "y_e box_s6 = []"
  "z_e box_s6 = [990001979999990 / 11000012000001]"
  "mu_eq box_s6 = 1000"
  "mu_in box_s6 = 10"
  "bcl_eta_ext box_s6 = (1 / 10) powr (1 / 10)"
  "bcl_eta_in box_s6 = 1"
  "active_constraints box_s6 = [True]"
  "kkt_nnz_counts box_s6 = [1]"
  "ldl box_s6 = \<lparr>ld_diag = [1 / 1000000, - (1 / 10)], ld_col_nnz = [1], ld_nnz_counts = [1]\<rparr>"
  "new_bcl_mu_eq box_s6 = 1000"
  "new_bcl_mu_in box_s6 = 10"
  "x_prev_e box_s6 = [100000000 / 1000001]"
  "y_prev_e box_s6 = []"
  "z_prev_e box_s6 = [0]"
  "primal_residual_eq_scaled box_s6 = []"
  "primal_residual_in_scaled_lo box_s6 = [99000197999999 / 11000012000001]"
  "primal_residual_in_scaled_up box_s6 = [110000210000000 / 11000012000001]"
  "dual_residual_scaled box_s6 = [989999890 / 11000012000001]"
  "primal_feasibility_eq_rhs_0 box_s6 = 0"
  "primal_feasibility_in_rhs_0 box_s6 = 110000210000000 / 11000012000001"
  "dual_feasibility_rhs_0 box_s6 = 110000210000000 / 11000012000001"
  "dual_feasibility_rhs_1 box_s6 = 0"
  "dual_feasibility_rhs_3 box_s6 = 990001979999990 / 11000012000001"
  by (simp_all add: box_s6_def box_s4_def box_s3a_def box_s3_def box_s0_def)

lemma box_s7_fields:
  "x_e box_s7 = [110000210000000 / 11000012000001]"
  "y_e box_s7 = []"
  "z_e box_s7 = [0]"
  "mu_eq box_s7 = 1000"
  "mu_in box_s7 = 10"
  "bcl_eta_ext box_s7 = (1 / 10) powr (1 / 10) / 100 powr (1 / 10)"
  "bcl_eta_in box_s7 = 1 / 100"
  "active_constraints box_s7 = [True]"
  "kkt_nnz_counts box_s7 = [1]"
  "ldl box_s7 = \<lparr>ld_diag = [1 / 1000000, - (1 / 10)], ld_col_nnz = [1], ld_nnz_counts = [1]\<rparr>"
  "new_bcl_mu_eq box_s7 = 10000"
  "new_bcl_mu_in box_s7 = 100"
  "x_prev_e box_s7 = [100000000 / 1000001]"
  "y_prev_e box_s7 = []"
  "z_prev_e box_s7 = [0]"
  "primal_residual_eq_scaled box_s7 = []"
  "primal_residual_in_scaled_lo box_s7 = [99000197999999 / 11000012000001]"
  "primal_residual_in_scaled_up box_s7 = [110000210000000 / 11000012000001]"
  "dual_residual_scaled box_s7 = [989999890 / 11000012000001]"
  "primal_feasibility_eq_rhs_0 box_s7 = 0"
  "primal_feasibility_in_rhs_0 box_s7 = 110000210000000 / 11000012000001"
  "dual_feasibility_rhs_0 box_s7 = 110000210000000 / 11000012000001"
  "dual_feasibility_rhs_1 box_s7 = 0"
  "dual_feasibility_rhs_3 box_s7 = 990001979999990 / 11000012000001"
  by (simp_all add: box_s7_def box_s6_def box_s4_def box_s3a_def box_s3_def box_s0_def)

lemma box_s8_fields:
  "x_e box_s8 = [110000210000000 / 11000012000001]"
  "y_e box_s8 = []"
  "z_e box_s8 = [0]"
  "mu_eq box_s8 = 1000"
  "mu_in box_s8 = 10"
  "bcl_eta_ext box_s8 = (1 / 10) powr (1 / 10) / 100 powr (1 / 10)"
  "bcl_eta_in box_s8 = 1 / 100"
  "active_constraints box_s8 = [True]"
  "kkt_nnz_counts box_s8 = [1]"
  "ldl box_s8 = \<lparr>ld_diag = [1 / 1000000, - (1 / 10)], ld_col_nnz = [1], ld_nnz_counts = [1]\<rparr>"
  "new_bcl_mu_eq box_s8 = 10000"
  "new_bcl_mu_in box_s8 = 100"
  "x_prev_e box_s8 = [100000000 / 1000001]"
  "y_prev_e box_s8 = []"
  "z_prev_e box_s8 = [0]"
  "primal_residual_eq_scaled box_s8 = []"
  "primal_residual_in_scaled_lo box_s8 = [99000197999999 / 11000012000001]"
  "primal_residual_in_scaled_up box_s8 = [110000210000000 / 11000012000001]"
  "dual_residual_scaled box_s8 = [- (990000990000100 / 11000012000001)]"
  "primal_feasibility_eq_rhs_0 box_s8 = 0"
  "primal_feasibility_in_rhs_0 box_s8 = 110000210000000 / 11000012000001"
  "dual_feasibility_rhs_0 box_s8 = 110000210000000 / 11000012000001"
  "dual_feasibility_rhs_1 box_s8 = 0"
  "dual_feasibility_rhs_3 box_s8 = 0"
  by (simp_all add: box_s8_def box_s7_def box_s6_def box_s4_def box_s3a_def box_s3_def box_s0_def)

lemma box_s9_fields:
  "x_e box_s9 = [110000210000000 / 11000012000001]"
  "y_e box_s9 = []"
  "z_e box_s9 = [0]"
  "mu_eq box_s9 = 10000"
  "mu_in box_s9 = 100"
  "bcl_eta_ext box_s9 = (1 / 10) powr (1 / 10) / 100 powr (1 / 10)"
  "bcl_eta_in box_s9 = 1 / 100"
  "active_constraints box_s9 = [True]"
  "kkt_nnz_counts box_s9 = [1]"
  "ldl box_s9 = \<lparr>ld_diag = [1 / 1000000, - (1 / 10)], ld_col_nnz = [1], ld_nnz_counts = [1]\<rparr>"
  "new_bcl_mu_eq box_s9 = 10000"
  "new_bcl_mu_in box_s9 = 100"
  "x_prev_e box_s9 = [100000000 / 1000001]"
  "y_prev_e box_s9 = []"
  "z_prev_e box_s9 = [0]"
  "primal_residual_eq_scaled box_s9 = []"
  "primal_residual_in_scaled_lo box_s9 = [99000197999999 / 11000012000001]"
  "primal_residual_in_scaled_up box_s9 = [110000210000000 / 11000012000001]"
  "dual_residual_scaled box_s9 = [- (990000990000100 / 11000012000001)]"
  "primal_feasibility_eq_rhs_0 box_s9 = 0"
  "primal_feasibility_in_rhs_0 box_s9 = 110000210000000 / 11000012000001"
  "dual_feasibility_rhs_0 box_s9 = 110000210000000 / 11000012000001"
  "dual_feasibility_rhs_1 box_s9 = 0"
  "dual_feasibility_rhs_3 box_s9 = 0"
  by (simp_all add: box_s9_def box_s8_def box_s7_def box_s6_def box_s4_def box_s3a_def box_s3_def box_s0_def)

lemma box_pre_inner:
  "unscaled_primal_residual (ctx_box settings_default)
     (box_s0\<lparr>new_bcl_mu_eq := 1000, new_bcl_mu_in := 10\<rparr>)
   = (box_s0\<lparr>primal_feasibility_in_rhs_0 := 100000000 / 1000001,
              primal_residual_in_scaled_lo := [98999999 / 1000001],
              primal_residual_in_scaled_up := [100000000 / 1000001]\<rparr>, 98999999 / 1000001)"
  "unscaled_dual_residual (ctx_box settings_default)
     (box_s0\<lparr>primal_feasibility_in_rhs_0 := 100000000 / 1000001,
              primal_residual_in_scaled_lo := [98999999 / 1000001],
              primal_residual_in_scaled_up := [100000000 / 1000001]\<rparr>)
   = (box_s2, 100 / 1000001)"
  "shift_residuals (ctx_box settings_default) box_s2 = box_s3"
  by (simp_all add: unscaled_primal_residual_def unscaled_dual_residual_def shift_residuals_def
      box_simps vec_eval_defs Let_def box_s0_def box_s2_def box_s3_def)

lemma box_activate:
  "active_set_change (ctx_box settings_default) box_s3 [True] = Inr box_s3a"
  by (simp add: active_set_change_def active_set_step_def add_row_def bind_err_def
      refactorize_def ldl_counts_def ldl_col_count_def box_simps box_s3_fields box_s3a_def Let_def)

lemma box_newton_dw:
  "newton_dw (ctx_box settings_default) box_s3a
   = [- (989999890000000 / 11000012000001), 990001979999990 / 11000012000001]"
  by (simp add: newton_dw_def newton_rhs_def ldl_solve_in_place_def ldl_iter_solve_noalias_def
      kkt_residual_def C_active_T_def box_simps box_s3a_fields vec_eval_defs Let_def
      ldl_iter_solve_loop_numeral)


lemma box_direction:
  "newton_direction (ctx_box settings_default) box_s3a
     [- (989999890000000 / 11000012000001), 990001979999990 / 11000012000001] = box_dir"
  by (simp add: newton_direction_def box_dir_def box_simps vec_eval_defs Let_def)

lemma box_dir_fields:
  "d_dx box_dir = [- (989999890000000 / 11000012000001)]" "d_dy box_dir = []"
  "d_dz box_dir = [990001979999990 / 11000012000001]"
  "d_Hdx box_dir = [- (989999890000000 / 11000012000001)]" "d_Adx box_dir = []"
  "d_Cdx box_dir = [- (989999890000000 / 11000012000001)]" "d_ATdy box_dir = [0]"
  "d_CTdz box_dir = [990001979999990 / 11000012000001]"
  by (simp_all add: box_dir_def)

lemma box_alpha: "newton_alpha (ctx_box settings_default) box_s3a = Fin 1"
  by (simp add: newton_alpha_def box_newton_dw box_direction line_search_def breakpoints_def
      collect_alphas_def alpha_candidates_def fl_sort_def fl_le_def fl_eq_def
      box_simps box_s3a_fields box_dir_fields Let_def)

lemma box_take_step:
  "take_step (ctx_box settings_default) box_s3a box_dir 1 = box_s4"
  by (simp add: take_step_def box_s4_def box_simps box_s3a_fields box_dir_fields vec_eval_defs)

lemma box_newton_iteration:
  "newton_iteration (ctx_box settings_default) 0 box_s3 = Inr (Exit InnerConverged box_s4)"
  by (simp add: newton_iteration_def box_s3_fields box_activate bind_err_def box_alpha
      box_newton_dw box_direction box_take_step err_in_def box_s4_fields vec_eval_defs Let_def)

lemma box_inner:
  "primal_dual_newton_semi_smooth (ctx_box settings_default) 0 box_s3
   = Inr (InnerConverged, 1, box_s4)"
  by (simp add: primal_dual_newton_semi_smooth_def box_simps newton_loop_numeral
      box_newton_iteration bind_err_def)

lemma powr_tenth_le1: "(1 / 10) powr (1 / 10) \<le> (1::real)"
  by (rule powr_le1) simp_all

lemma box_post_inner:
  "unscaled_primal_residual (ctx_box settings_default) box_s4
   = (box_s5, 99000197999999 / 11000012000001)"
  "unscaled_dual_residual (ctx_box settings_default) box_s5
   = (box_s6, 989999890 / 11000012000001)"
  by (simp_all add: unscaled_primal_residual_def unscaled_dual_residual_def box_simps
      vec_eval_defs Let_def box_s4_fields box_s5_def box_s6_def)

lemma box_bcl_update:
  "bcl_update (ctx_box settings_default) box_s6 (99000197999999 / 11000012000001) = box_s7"
  using powr_tenth_le1
  by (simp add: bcl_update_def bcl_eta_ext_init_def eps_in_min_def box_simps box_s6_fields
      box_s7_def Let_def)

lemma box_dual2:
  "unscaled_dual_residual (ctx_box settings_default) box_s7
   = (box_s8, 990000990000100 / 11000012000001)"
  by (simp add: unscaled_dual_residual_def box_simps vec_eval_defs Let_def box_s7_fields
      box_s8_def)

lemma box_cold_reset:
  "cold_reset (ctx_box settings_default) box_s8 (98999999 / 1000001)
     (99000197999999 / 11000012000001) (990000990000100 / 11000012000001) = box_s8"
  by (simp add: cold_reset_def)

lemma box_mu_update: "mu_update_step (ctx_box settings_default) box_s8 = box_s9"
  by (simp add: mu_update_step_def refactorize_def ldl_counts_def ldl_col_count_def
      box_simps box_s8_fields box_s9_def)

lemma box_after_inner:
  "after_inner (ctx_box settings_default) (98999999 / 1000001) box_s4 = Next box_s9"
  by (simp add: after_inner_def box_post_inner is_primal_feasible_def is_dual_feasible_def
      box_simps box_s6_fields box_bcl_update box_dual2 box_cold_reset box_mu_update Let_def)

lemma box_outer0:
  "outer_iteration (ctx_box settings_default) 0 box_s0 = Inr (Next box_s9)"
  by (simp add: outer_iteration_def box_pre_inner is_primal_feasible_def is_dual_feasible_def
      box_simps box_s0_fields box_s2_fields box_inner bind_err_def box_after_inner Let_def)



section \<open>The penalty update and the factorization\<close>

lemma mu_update_step_stale:
  assumes "mu_in s \<noteq> new_bcl_mu_in s" and "i < c_n_in c" and "active_constraints s ! i"
  shows "mu_in (mu_update_step c s) = new_bcl_mu_in s"
    and "ld_diag (ldl (mu_update_step c s)) ! (c_n c + c_n_eq c + i) = - 1 / mu_in s"
  using assms by (simp_all add: mu_update_step_def refactorize_def nth_append)

lemma box_s0_coherent: "kkt_slots_coherent (ctx_box settings_default) box_s0"
  by (simp add: kkt_slots_coherent_def box_simps box_s0_fields)

lemma box_s9_incoherent: "\<not> kkt_slots_coherent (ctx_box settings_default) box_s9"
  by (simp add: kkt_slots_coherent_def box_simps box_s9_fields)

text \<open>
  C8: the claim is that the slot of an inequality in the KKT matrix holds its column
  and the diagonal \<open>-1 / mu_in\<close> exactly when the inequality is active, and that the
  factorization reflects the slots at all times. The penalty update at the end of an
  outer iteration calls \<open>refactorize()\<close> before it assigns \<open>mu_in\<close>, so the factorization
  is rebuilt with the old penalty: on \<open>qp_box\<close> with the default settings the slots are
  coherent before the first outer iteration, and after it the inequality is active,
  \<open>mu_in\<close> is 100 and the diagonal given to the factorization is \<open>-1 / 10\<close>.
\<close>

theorem mu_update_stale_factorization:
  "vars_box settings_default = box_s0
   \<and> kkt_slots_coherent (ctx_box settings_default) box_s0
   \<and> outer_iteration (ctx_box settings_default) 0 box_s0 = Inr (Next box_s9)
   \<and> active_constraints box_s9 = [True]
   \<and> mu_in box_s9 = 100
   \<and> ld_diag (ldl box_s9) ! 1 = - (1 / 10)
   \<and> \<not> kkt_slots_coherent (ctx_box settings_default) box_s9"
  using box_initial box_s0_coherent box_outer0 box_s9_incoherent
  by (simp add: box_s9_fields)

section \<open>The end of an outer iteration\<close>

lemma cold_reset_frame:
  "mu_in (cold_reset c s pl pn dn) = mu_in s" "mu_eq (cold_reset c s pl pn dn) = mu_eq s"
  "x_e (cold_reset c s pl pn dn) = x_e s" "y_e (cold_reset c s pl pn dn) = y_e s"
  "z_e (cold_reset c s pl pn dn) = z_e s"
  "bcl_eta_ext (cold_reset c s pl pn dn) = bcl_eta_ext s"
  "bcl_eta_in (cold_reset c s pl pn dn) = bcl_eta_in s"
  by (simp_all add: cold_reset_def)

lemma mu_update_step_mu:
  "mu_in (mu_update_step c s) = new_bcl_mu_in s" "mu_eq (mu_update_step c s) = new_bcl_mu_eq s"
  by (simp_all add: mu_update_step_def refactorize_def)

lemma mu_update_step_frame:
  "x_e (mu_update_step c s) = x_e s" "y_e (mu_update_step c s) = y_e s"
  "z_e (mu_update_step c s) = z_e s"
  "bcl_eta_ext (mu_update_step c s) = bcl_eta_ext s"
  "bcl_eta_in (mu_update_step c s) = bcl_eta_in s"
  by (simp_all add: mu_update_step_def refactorize_def)

text \<open>
  An outer iteration that goes on, stage by stage: the penalties, the tolerances and
  the snapshots that \<open>bcl_update\<close> and the cold reset read are those of the head of the
  iteration, and the state at the end is the one \<open>mu_update\<close> leaves.
\<close>

lemma outer_iteration_next:
  assumes p0: "unscaled_primal_residual c (s0\<lparr>new_bcl_mu_eq := mu_eq s0, new_bcl_mu_in := mu_in s0\<rparr>)
               = (s2, primal_feasibility_lhs)"
    and d0: "unscaled_dual_residual c s2 = (s3, dual_feasibility_lhs)"
    and inner: "primal_dual_newton_semi_smooth c iter (shift_residuals c s3) = Inr (e, k, s4)"
    and p: "unscaled_primal_residual c s4 = (s5, primal_feasibility_lhs_new)"
    and d: "unscaled_dual_residual c s5 = (s6, dual_feasibility_lhs_new)"
    and d2: "unscaled_dual_residual c (bcl_update c s6 primal_feasibility_lhs_new)
             = (s8, dual_feasibility_lhs_new2)"
    and nx: "outer_iteration c iter s0 = Inr (Next s')"
  shows "s' = mu_update_step c
                (cold_reset c s8 primal_feasibility_lhs primal_feasibility_lhs_new
                   dual_feasibility_lhs_new2)"
    and "mu_in s6 = mu_in s0" and "mu_eq s6 = mu_eq s0"
    and "bcl_eta_ext s6 = bcl_eta_ext s0" and "bcl_eta_in s6 = bcl_eta_in s0"
    and "new_bcl_mu_in s6 = mu_in s0" and "new_bcl_mu_eq s6 = mu_eq s0"
    and "y_prev_e s6 = y_e s0" and "z_prev_e s6 = z_e s0" and "x_e s6 = x_e s4"
    and "same_params (bcl_update c s6 primal_feasibility_lhs_new) s8"
    and "x_e s8 = x_e (bcl_update c s6 primal_feasibility_lhs_new)"
    and "y_e s8 = y_e (bcl_update c s6 primal_feasibility_lhs_new)"
    and "z_e s8 = z_e (bcl_update c s6 primal_feasibility_lhs_new)"
proof -
  let ?s1 = "s0\<lparr>new_bcl_mu_eq := mu_eq s0, new_bcl_mu_in := mu_in s0\<rparr>"
  have a0: "same_params ?s1 s2" "y_e s2 = y_e s0" "z_e s2 = z_e s0"
    using unscaled_primal_residual_params[of ?s1 c] unscaled_primal_residual_iterates[of c ?s1] p0
    by simp_all
  have b0: "same_params s2 s3" "y_e s3 = y_e s2" "z_e s3 = z_e s2"
    using unscaled_dual_residual_params[of s2 c] unscaled_dual_residual_iterates[of c s2] d0
    by simp_all
  have sh: "y_prev_e (shift_residuals c s3) = y_e s3" "z_prev_e (shift_residuals c s3) = z_e s3"
    "mu_in (shift_residuals c s3) = mu_in s3" "mu_eq (shift_residuals c s3) = mu_eq s3"
    "bcl_eta_ext (shift_residuals c s3) = bcl_eta_ext s3"
    "bcl_eta_in (shift_residuals c s3) = bcl_eta_in s3"
    "new_bcl_mu_in (shift_residuals c s3) = new_bcl_mu_in s3"
    "new_bcl_mu_eq (shift_residuals c s3) = new_bcl_mu_eq s3"
    by (simp_all add: shift_residuals_def Let_def)
  have a: "same_params (shift_residuals c s3) s4"
    using inner by (auto simp: primal_dual_newton_semi_smooth_def dest: newton_loop_params)
  have b: "same_params s4 s5" "x_e s5 = x_e s4"
    using unscaled_primal_residual_params[of s4 c] unscaled_primal_residual_iterates[of c s4] p
    by simp_all
  have cc: "same_params s5 s6" "x_e s6 = x_e s5"
    using unscaled_dual_residual_params[of s5 c] unscaled_dual_residual_iterates[of c s5] d
    by simp_all
  from a0 b0 sh a b cc show "mu_in s6 = mu_in s0" "mu_eq s6 = mu_eq s0"
    "bcl_eta_ext s6 = bcl_eta_ext s0" "bcl_eta_in s6 = bcl_eta_in s0"
    "new_bcl_mu_in s6 = mu_in s0" "new_bcl_mu_eq s6 = mu_eq s0"
    "y_prev_e s6 = y_e s0" "z_prev_e s6 = z_e s0" "x_e s6 = x_e s4"
    by (simp_all add: same_params_def)
  show "same_params (bcl_update c s6 primal_feasibility_lhs_new) s8"
    "x_e s8 = x_e (bcl_update c s6 primal_feasibility_lhs_new)"
    "y_e s8 = y_e (bcl_update c s6 primal_feasibility_lhs_new)"
    "z_e s8 = z_e (bcl_update c s6 primal_feasibility_lhs_new)"
    using unscaled_dual_residual_params[of "bcl_update c s6 primal_feasibility_lhs_new" c]
      unscaled_dual_residual_iterates[of c "bcl_update c s6 primal_feasibility_lhs_new"] d2
    by simp_all
  show "s' = mu_update_step c
                (cold_reset c s8 primal_feasibility_lhs primal_feasibility_lhs_new
                   dual_feasibility_lhs_new2)"
    using nx
    by (simp add: outer_iteration_def p0 d0 inner bind_err_def after_inner_def p d d2
        split: if_splits)
qed


section \<open>Rejection by the BCL test\<close>

text \<open>
  C5: an outer iteration in which the step is rejected (the primal feasibility after the
  inner loop exceeds \<open>bcl_eta_ext\<close>) ends with \<open>y\<close> and \<open>z\<close> as they were at its head and
  with the \<open>x\<close> of the inner loop, with \<open>bcl_eta_ext\<close> at
  \<open>pow(0.1, alpha_bcl) / pow(new_mu_in, alpha_bcl)\<close> and \<open>bcl_eta_in\<close> at
  \<open>1 / max(new_mu_in, eta_in_min)\<close>, where \<open>new_mu = min(mu * mu_update_factor, mu_max)\<close>;
  the penalties at its end are \<open>new_mu_eq\<close> and \<open>new_mu_in\<close> unless the cold reset
  applies, which replaces them by the reset values.
\<close>

theorem bcl_rejection:
  assumes p0: "unscaled_primal_residual c (s0\<lparr>new_bcl_mu_eq := mu_eq s0, new_bcl_mu_in := mu_in s0\<rparr>)
               = (s2, primal_feasibility_lhs)"
    and d0: "unscaled_dual_residual c s2 = (s3, dual_feasibility_lhs)"
    and inner: "primal_dual_newton_semi_smooth c iter (shift_residuals c s3) = Inr (e, k, s4)"
    and p: "unscaled_primal_residual c s4 = (s5, primal_feasibility_lhs_new)"
    and d: "unscaled_dual_residual c s5 = (s6, dual_feasibility_lhs_new)"
    and d2: "unscaled_dual_residual c (bcl_update c s6 primal_feasibility_lhs_new)
             = (s8, dual_feasibility_lhs_new2)"
    and nx: "outer_iteration c iter s0 = Inr (Next s')"
    and rej: "bcl_eta_ext s0 < primal_feasibility_lhs_new"
  shows "y_e s' = y_e s0 \<and> z_e s' = z_e s0 \<and> x_e s' = x_e s4
       \<and> bcl_eta_ext s'
           = k_pow (c_kernel c) (1 / 10) (alpha_bcl (c_settings c))
             / k_pow (c_kernel c)
                 (min (mu_in s0 * mu_update_factor (c_settings c)) (mu_max_in (c_settings c)))
                 (alpha_bcl (c_settings c))
       \<and> bcl_eta_in s'
           = 1 / max (min (mu_in s0 * mu_update_factor (c_settings c)) (mu_max_in (c_settings c)))
                   (min (eps_abs (c_settings c)) (1 / 10 ^ 9))
       \<and> (mu_eq s', mu_in s') =
           (if primal_feasibility_lhs_new \<ge> primal_feasibility_lhs \<and>
               dual_feasibility_lhs_new2 \<ge> primal_feasibility_lhs \<and>
               mu_in s0 \<ge> 100000
            then (cold_reset_mu_eq (c_settings c), cold_reset_mu_in (c_settings c))
            else (min (mu_eq s0 * mu_update_factor (c_settings c)) (mu_max_eq (c_settings c)),
                  min (mu_in s0 * mu_update_factor (c_settings c)) (mu_max_in (c_settings c))))"
proof -
  note n = outer_iteration_next[OF p0 d0 inner p d d2 nx]
  let ?s7 = "bcl_update c s6 primal_feasibility_lhs_new"
  have r: "\<not> primal_feasibility_lhs_new \<le> bcl_eta_ext s6"
    using rej n(4) by simp
  have s7: "y_e ?s7 = y_e s0" "z_e ?s7 = z_e s0" "x_e ?s7 = x_e s4"
    "mu_in ?s7 = mu_in s0"
    "new_bcl_mu_in ?s7
       = min (mu_in s0 * mu_update_factor (c_settings c)) (mu_max_in (c_settings c))"
    "new_bcl_mu_eq ?s7
       = min (mu_eq s0 * mu_update_factor (c_settings c)) (mu_max_eq (c_settings c))"
    "bcl_eta_ext ?s7
       = k_pow (c_kernel c) (1 / 10) (alpha_bcl (c_settings c))
         / k_pow (c_kernel c)
             (min (mu_in s0 * mu_update_factor (c_settings c)) (mu_max_in (c_settings c)))
             (alpha_bcl (c_settings c))"
    "bcl_eta_in ?s7
       = 1 / max (min (mu_in s0 * mu_update_factor (c_settings c)) (mu_max_in (c_settings c)))
               (min (eps_abs (c_settings c)) (1 / 10 ^ 9))"
    using r n(2,3,8,9,10)
    by (simp_all add: bcl_update_def Let_def bcl_eta_ext_init_def eps_in_min_def)
  have s8: "y_e s8 = y_e s0" "z_e s8 = z_e s0" "x_e s8 = x_e s4" "mu_in s8 = mu_in s0"
    "new_bcl_mu_in s8
       = min (mu_in s0 * mu_update_factor (c_settings c)) (mu_max_in (c_settings c))"
    "new_bcl_mu_eq s8
       = min (mu_eq s0 * mu_update_factor (c_settings c)) (mu_max_eq (c_settings c))"
    "bcl_eta_ext s8 = bcl_eta_ext ?s7" "bcl_eta_in s8 = bcl_eta_in ?s7"
    using n(11,12,13,14) s7 by (simp_all add: same_params_def)
  show ?thesis
    unfolding n(1)
    by (simp add: mu_update_step_frame mu_update_step_mu cold_reset_frame s8 s7(7,8))
       (simp add: cold_reset_def s8)
qed

section \<open>The cold reset\<close>


section \<open>An infeasible model\<close>

lemma ctx_stuck_simps:
  "c_kernel (ctx_stuck g0) = kernel_diag" "c_settings (ctx_stuck g0) = settings_default"
  "c_precond (ctx_stuck g0) = Identity" "c_qp (ctx_stuck g0) = qp_stuck g0"
  "c_qp_scaled (ctx_stuck g0) = qp_stuck g0" "c_rho (ctx_stuck g0) = 1 / 10 ^ 6"
  "c_n (ctx_stuck g0) = 1" "c_n_eq (ctx_stuck g0) = 1" "c_n_in (ctx_stuck g0) = 0"
  by (simp_all add: ctx_stuck_def c_n_def c_n_eq_def c_n_in_def ncols_def qp_stuck_def)

lemma qp_stuck_simps:
  "qp_H (qp_stuck g0) = \<lparr>nrows = 1, cols = [[]]\<rparr>" "qp_g (qp_stuck g0) = [g0]"
  "qp_AT (qp_stuck g0) = \<lparr>nrows = 1, cols = [[]]\<rparr>" "qp_b (qp_stuck g0) = [1]"
  "qp_CT (qp_stuck g0) = \<lparr>nrows = 1, cols = []\<rparr>" "qp_l (qp_stuck g0) = []"
  "qp_u (qp_stuck g0) = []"
  by (simp_all add: qp_stuck_def)

lemmas stuck_simps = ctx_stuck_simps qp_stuck_simps settings_default_simps

lemma stuck_primal: "snd (unscaled_primal_residual (ctx_stuck g0) s) = 1"
  by (simp add: unscaled_primal_residual_def stuck_simps vec_eval_defs Let_def)

lemma stuck_dual: "snd (unscaled_dual_residual (ctx_stuck g0) s) = \<bar>g0\<bar>"
  by (simp add: unscaled_dual_residual_def stuck_simps vec_eval_defs Let_def)

lemma stuck_newton_iteration: "\<exists>r. newton_iteration (ctx_stuck g0) iter s = Inr r"
  by (simp add: newton_iteration_def active_set_change_def newton_alpha_def bind_err_def
      stuck_simps Let_def)

lemma stuck_newton_loop: "\<exists>r. newton_loop (ctx_stuck g0) iter left k s = Inr r"
proof (induction left arbitrary: k s)
  case 0
  then show ?case by simp
next
  case (Suc left)
  obtain r where r: "newton_iteration (ctx_stuck g0) iter s = Inr r"
    using stuck_newton_iteration by blast
  show ?case
  proof (cases r)
    case (Exit e s')
    with r show ?thesis by (simp add: bind_err_def)
  next
    case (Continue s')
    with r Suc.IH[of "Suc k" s'] show ?thesis by (simp add: bind_err_def)
  qed
qed

lemma stuck_inner:
  "\<exists>e k s4. primal_dual_newton_semi_smooth (ctx_stuck g0) iter s = Inr (e, k, s4)"
  using stuck_newton_loop[of g0 iter "nat (max_iter_in (c_settings (ctx_stuck g0)))" 0 s]
  by (auto simp: primal_dual_newton_semi_smooth_def)

lemma stuck_not_feasible: "\<not> is_primal_feasible (ctx_stuck g0) s 1"
  by (simp add: is_primal_feasible_def stuck_simps)


lemma stuck_stages:
  obtains s2 s3 dual_feasibility_lhs e k s4 s5 s6 s8 s' where
    "unscaled_primal_residual (ctx_stuck g0)
       (s0\<lparr>new_bcl_mu_eq := mu_eq s0, new_bcl_mu_in := mu_in s0\<rparr>) = (s2, 1)"
    "unscaled_dual_residual (ctx_stuck g0) s2 = (s3, dual_feasibility_lhs)"
    "primal_dual_newton_semi_smooth (ctx_stuck g0) iter (shift_residuals (ctx_stuck g0) s3)
       = Inr (e, k, s4)"
    "unscaled_primal_residual (ctx_stuck g0) s4 = (s5, 1)"
    "unscaled_dual_residual (ctx_stuck g0) s5 = (s6, \<bar>g0\<bar>)"
    "unscaled_dual_residual (ctx_stuck g0) (bcl_update (ctx_stuck g0) s6 1) = (s8, \<bar>g0\<bar>)"
    "outer_iteration (ctx_stuck g0) iter s0 = Inr (Next s')"
proof -
  let ?c = "ctx_stuck g0"
  obtain s2 where p0: "unscaled_primal_residual ?c
       (s0\<lparr>new_bcl_mu_eq := mu_eq s0, new_bcl_mu_in := mu_in s0\<rparr>) = (s2, 1)"
    using stuck_primal[of g0] by (metis prod.collapse)
  obtain s3 dl where d0: "unscaled_dual_residual ?c s2 = (s3, dl)" by force
  obtain e k s4 where
    inner: "primal_dual_newton_semi_smooth ?c iter (shift_residuals ?c s3) = Inr (e, k, s4)"
    using stuck_inner by blast
  obtain s5 where p: "unscaled_primal_residual ?c s4 = (s5, 1)"
    using stuck_primal[of g0] by (metis prod.collapse)
  obtain s6 where d: "unscaled_dual_residual ?c s5 = (s6, \<bar>g0\<bar>)"
    using stuck_dual[of g0] by (metis prod.collapse)
  obtain s8 where d2: "unscaled_dual_residual ?c (bcl_update ?c s6 1) = (s8, \<bar>g0\<bar>)"
    using stuck_dual[of g0] by (metis prod.collapse)
  have "outer_iteration ?c iter s0 = Inr (Next (mu_update_step ?c (cold_reset ?c s8 1 1 \<bar>g0\<bar>)))"
    by (simp add: outer_iteration_def p0 d0 inner bind_err_def after_inner_def p d d2
        stuck_not_feasible)
  with p0 d0 inner p d d2 show ?thesis by (rule that)
qed

lemma powr_tenth_less1: "(1 / 10) powr (1 / 10) < (1::real)"
  using powr_less_mono2[of "1 / 10" "1 / 10" "1::real"] by simp

lemma stuck_step:
  assumes eta: "bcl_eta_ext s0 < 1" and mu: "1 \<le> mu_in s0"
  obtains s' where "outer_iteration (ctx_stuck g0) iter s0 = Inr (Next s')"
    "mu_in s' = (if 1 \<le> \<bar>g0\<bar> \<and> 100000 \<le> mu_in s0 then 11 / 10
                 else min (mu_in s0 * 10) (10 ^ 8))"
    "mu_eq s' = (if 1 \<le> \<bar>g0\<bar> \<and> 100000 \<le> mu_in s0 then 11 / 10
                 else min (mu_eq s0 * 10) (10 ^ 10))"
    "bcl_eta_ext s' < 1"
proof -
  let ?c = "ctx_stuck g0"
  obtain s2 s3 dl e k s4 s5 s6 s8 s' where
    st: "unscaled_primal_residual ?c
       (s0\<lparr>new_bcl_mu_eq := mu_eq s0, new_bcl_mu_in := mu_in s0\<rparr>) = (s2, 1)"
    "unscaled_dual_residual ?c s2 = (s3, dl)"
    "primal_dual_newton_semi_smooth ?c iter (shift_residuals ?c s3) = Inr (e, k, s4)"
    "unscaled_primal_residual ?c s4 = (s5, 1)"
    "unscaled_dual_residual ?c s5 = (s6, \<bar>g0\<bar>)"
    "unscaled_dual_residual ?c (bcl_update ?c s6 1) = (s8, \<bar>g0\<bar>)"
    "outer_iteration ?c iter s0 = Inr (Next s')"
    by (rule stuck_stages)
  note n = outer_iteration_next[OF st]
  let ?m = "min (mu_in s0 * 10) (10 ^ 8)"
  have m1: "1 \<le> ?m" using mu by simp
  have s7: "mu_in (bcl_update ?c s6 1) = mu_in s0"
    "new_bcl_mu_in (bcl_update ?c s6 1) = ?m"
    "new_bcl_mu_eq (bcl_update ?c s6 1) = min (mu_eq s0 * 10) (10 ^ 10)"
    "bcl_eta_ext (bcl_update ?c s6 1) = (1 / 10) powr (1 / 10) / ?m powr (1 / 10)"
    using eta n(2,3,4)
    by (simp_all add: bcl_update_def Let_def bcl_eta_ext_init_def stuck_simps kernel_diag_def)
  have s8: "mu_in s8 = mu_in s0" "new_bcl_mu_in s8 = ?m"
    "new_bcl_mu_eq s8 = min (mu_eq s0 * 10) (10 ^ 10)"
    "bcl_eta_ext s8 = (1 / 10) powr (1 / 10) / ?m powr (1 / 10)"
    using n(11) s7 by (simp_all add: same_params_def)
  have "1 \<le> ?m powr (1 / 10)" using m1 by (simp add: ge_one_powr_ge_zero)
  then have "(1 / 10) powr (1 / 10) / ?m powr (1 / 10) \<le> (1 / 10) powr (1 / 10)"
    by (simp add: divide_le_eq)
  then have e8: "bcl_eta_ext s8 < 1" using powr_tenth_less1 s8(4) by linarith
  have s': "s' = mu_update_step ?c (cold_reset ?c s8 1 1 \<bar>g0\<bar>)" by (rule n(1))
  show ?thesis
  proof (rule that[OF st(7)])
    show "mu_in s' = (if 1 \<le> \<bar>g0\<bar> \<and> 100000 \<le> mu_in s0 then 11 / 10
                 else min (mu_in s0 * 10) (10 ^ 8))"
      by (simp add: s' mu_update_step_mu cold_reset_def s8 stuck_simps)
    show "mu_eq s' = (if 1 \<le> \<bar>g0\<bar> \<and> 100000 \<le> mu_in s0 then 11 / 10
                 else min (mu_eq s0 * 10) (10 ^ 10))"
      by (simp add: s' mu_update_step_mu cold_reset_def s8 stuck_simps)
    show "bcl_eta_ext s' < 1"
      using e8 by (simp add: s' mu_update_step_frame cold_reset_frame)
  qed
qed

lemma vars_stuck_params:
  "mu_in (vars_stuck g0) = 10" "mu_eq (vars_stuck g0) = 1000"
  "bcl_eta_ext (vars_stuck g0) = (1 / 10) powr (1 / 10)"
  by (simp_all add: vars_stuck_def initial_guess_def initial_vars_def refactorize_def Let_def
      bcl_eta_ext_init_def stuck_simps kernel_diag_def)

lemma stuck_run:
  obtains t4 where "outer_states (ctx_stuck g0) 0 4 (vars_stuck g0) = Some t4"
    "mu_in t4 = 100000" "mu_eq t4 = 10000000" "bcl_eta_ext t4 < 1"
proof -
  let ?c = "ctx_stuck g0"
  obtain t1 where t1: "outer_iteration ?c 0 (vars_stuck g0) = Inr (Next t1)"
    "mu_in t1 = 100" "mu_eq t1 = 10000" "bcl_eta_ext t1 < 1"
    using stuck_step[of "vars_stuck g0" g0 0] powr_tenth_less1
    by (auto simp: vars_stuck_params)
  obtain t2 where t2: "outer_iteration ?c 1 t1 = Inr (Next t2)"
    "mu_in t2 = 1000" "mu_eq t2 = 100000" "bcl_eta_ext t2 < 1"
    using stuck_step[of t1 g0 1] t1 by auto
  obtain t3 where t3: "outer_iteration ?c 2 t2 = Inr (Next t3)"
    "mu_in t3 = 10000" "mu_eq t3 = 1000000" "bcl_eta_ext t3 < 1"
    using stuck_step[of t2 g0 2] t2 by auto
  obtain t4 where t4: "outer_iteration ?c 3 t3 = Inr (Next t4)"
    "mu_in t4 = 100000" "mu_eq t4 = 10000000" "bcl_eta_ext t4 < 1"
    using stuck_step[of t3 g0 3] t3 by auto
  have "outer_states ?c 0 4 (vars_stuck g0) = Some t4"
    by (simp add: eval_nat_numeral t1 t2 t3 t4)
  with t4 show ?thesis by (auto intro: that)
qed



lemma box_reject: "bcl_eta_ext box_s0 < 99000197999999 / 11000012000001"
proof -
  have "bcl_eta_ext box_s0 \<le> 1"
    using powr_tenth_le1 by (simp add: box_s0_fields)
  then show ?thesis by simp
qed

theorem bcl_rejection_witness:
  "outer_iteration (ctx_box settings_default) 0 box_s0 = Inr (Next box_s9)
   \<and> bcl_eta_ext box_s0 < 99000197999999 / 11000012000001
   \<and> y_e box_s9 = [] \<and> z_e box_s9 = [0]
   \<and> x_e box_s9 = [110000210000000 / 11000012000001]
   \<and> bcl_eta_ext box_s9 = (1 / 10) powr (1 / 10) / 100 powr (1 / 10)
   \<and> bcl_eta_in box_s9 = 1 / 100
   \<and> (mu_eq box_s9, mu_in box_s9) = (10000, 100)"
proof -
  have p0: "unscaled_primal_residual (ctx_box settings_default)
              (box_s0\<lparr>new_bcl_mu_eq := mu_eq box_s0, new_bcl_mu_in := mu_in box_s0\<rparr>)
            = (box_s0\<lparr>primal_feasibility_in_rhs_0 := 100000000 / 1000001,
                 primal_residual_in_scaled_lo := [98999999 / 1000001],
                 primal_residual_in_scaled_up := [100000000 / 1000001]\<rparr>, 98999999 / 1000001)"
    by (simp add: box_s0_fields box_pre_inner(1))
  have inner: "primal_dual_newton_semi_smooth (ctx_box settings_default) 0
                 (shift_residuals (ctx_box settings_default) box_s2)
               = Inr (InnerConverged, 1, box_s4)"
    by (simp only: box_pre_inner(3) box_inner)
  have d2: "unscaled_dual_residual (ctx_box settings_default)
              (bcl_update (ctx_box settings_default) box_s6 (99000197999999 / 11000012000001))
            = (box_s8, 990000990000100 / 11000012000001)"
    by (simp only: box_bcl_update box_dual2)
  from bcl_rejection[OF p0 box_pre_inner(2) inner box_post_inner(1) box_post_inner(2) d2
      box_outer0 box_reject]
  show ?thesis
    using box_outer0 box_reject by (simp add: box_simps box_s0_fields box_s4_fields)
qed

text \<open>
  On \<open>qp_stuck 5\<close> every state has primal feasibility 1, above \<open>bcl_eta_ext\<close>, so every
  outer iteration rejects the step. The fifth starts with \<open>mu_in = 1e5\<close> and ends with
  the reset penalties, not the increased ones.
\<close>

theorem bcl_rejection_counterexample:
  "case outer_states (ctx_stuck 5) 0 4 (vars_stuck 5) of
     None \<Rightarrow> False
   | Some t4 \<Rightarrow>
       (case outer_iteration (ctx_stuck 5) 4 t4 of
          Inr (Next t5) \<Rightarrow>
            mu_in t4 = 100000 \<and> mu_eq t4 = 10000000 \<and> bcl_eta_ext t4 < 1
            \<and> (\<forall>s. snd (unscaled_primal_residual (ctx_stuck 5) s) = 1)
            \<and> (mu_eq t5, mu_in t5) = (11 / 10, 11 / 10)
            \<and> (mu_eq t5, mu_in t5)
                \<noteq> (min (mu_eq t4 * mu_update_factor settings_default)
                       (mu_max_eq settings_default),
                     min (mu_in t4 * mu_update_factor settings_default)
                       (mu_max_in settings_default))
        | _ \<Rightarrow> False)"
proof -
  obtain t4 where t4: "outer_states (ctx_stuck 5) 0 4 (vars_stuck 5) = Some t4"
    "mu_in t4 = 100000" "mu_eq t4 = 10000000" "bcl_eta_ext t4 < 1"
    by (rule stuck_run)
  obtain t5 where t5: "outer_iteration (ctx_stuck 5) 4 t4 = Inr (Next t5)"
    "mu_in t5 = 11 / 10" "mu_eq t5 = 11 / 10"
    using stuck_step[of t4 5 4] t4 by auto
  show ?thesis
    by (simp add: t4 t5 stuck_primal stuck_simps)
qed

section \<open>The exits of the inner loop\<close>





section \<open>A run without iterative refinement\<close>

lemma settings_norefine_simps:
  "alpha_bcl settings_norefine = 1 / 10" "beta_bcl settings_norefine = 9 / 10"
  "mu_max_eq settings_norefine = 10 ^ 10" "mu_max_in settings_norefine = 10 ^ 8"
  "mu_update_factor settings_norefine = 10" "cold_reset_mu_eq settings_norefine = 11 / 10"
  "cold_reset_mu_in settings_norefine = 11 / 10" "max_iter settings_norefine = 10000"
  "max_iter_in settings_norefine = 3" "eps_abs settings_norefine = 1 / 10 ^ 9"
  "eps_rel settings_norefine = 0" "nb_iterative_refinement settings_norefine = 0"
  "warm_start settings_norefine = False"
  by (simp_all add: settings_norefine_def settings_default_def)

lemmas nr_simps = ctx_box_simps qp_box_simps kernel_box_simps settings_norefine_simps

lemma nr_initial: "vars_box settings_norefine = nr_s0"
  by (simp add: vars_box_def nr_s0_def box_s0_def initial_guess_def initial_vars_def
      refactorize_def ldl_counts_def ldl_col_count_def ldl_solve_in_place_def
      ldl_iter_solve_noalias_def nr_simps vec_eval_defs Let_def bcl_eta_ext_init_def)

lemma nr_s0_fields:
  "x_e nr_s0 = [0]"
  "y_e nr_s0 = []"
  "z_e nr_s0 = [0]"
  "mu_eq nr_s0 = 1000"
  "mu_in nr_s0 = 10"
  "bcl_eta_ext nr_s0 = (1 / 10) powr (1 / 10)"
  "bcl_eta_in nr_s0 = 1"
  "active_constraints nr_s0 = [False]"
  "kkt_nnz_counts nr_s0 = [0]"
  "ldl nr_s0 = \<lparr>ld_diag = [1 / 1000000, 1], ld_col_nnz = [0], ld_nnz_counts = [1]\<rparr>"
  "new_bcl_mu_eq nr_s0 = 1000"
  "new_bcl_mu_in nr_s0 = 10"
  "x_prev_e nr_s0 = []"
  "y_prev_e nr_s0 = []"
  "z_prev_e nr_s0 = []"
  "primal_residual_eq_scaled nr_s0 = []"
  "primal_residual_in_scaled_lo nr_s0 = []"
  "primal_residual_in_scaled_up nr_s0 = []"
  "dual_residual_scaled nr_s0 = []"
  "primal_feasibility_eq_rhs_0 nr_s0 = 0"
  "primal_feasibility_in_rhs_0 nr_s0 = 0"
  "dual_feasibility_rhs_0 nr_s0 = 0"
  "dual_feasibility_rhs_1 nr_s0 = 0"
  "dual_feasibility_rhs_3 nr_s0 = 0"
  by (simp_all add: nr_s0_def box_s0_def)

lemma nr_s3_fields:
  "x_e nr_s3 = [0]"
  "y_e nr_s3 = []"
  "z_e nr_s3 = [0]"
  "mu_eq nr_s3 = 1000"
  "mu_in nr_s3 = 10"
  "bcl_eta_ext nr_s3 = (1 / 10) powr (1 / 10)"
  "bcl_eta_in nr_s3 = 1"
  "active_constraints nr_s3 = [False]"
  "kkt_nnz_counts nr_s3 = [0]"
  "ldl nr_s3 = \<lparr>ld_diag = [1 / 1000000, 1], ld_col_nnz = [0], ld_nnz_counts = [1]\<rparr>"
  "new_bcl_mu_eq nr_s3 = 1000"
  "new_bcl_mu_in nr_s3 = 10"
  "x_prev_e nr_s3 = [0]"
  "y_prev_e nr_s3 = []"
  "z_prev_e nr_s3 = [0]"
  "primal_residual_eq_scaled nr_s3 = []"
  "primal_residual_in_scaled_lo nr_s3 = [1]"
  "primal_residual_in_scaled_up nr_s3 = [- 1]"
  "dual_residual_scaled nr_s3 = [- 100]"
  "primal_feasibility_eq_rhs_0 nr_s3 = 0"
  "primal_feasibility_in_rhs_0 nr_s3 = 0"
  "dual_feasibility_rhs_0 nr_s3 = 0"
  "dual_feasibility_rhs_1 nr_s3 = 0"
  "dual_feasibility_rhs_3 nr_s3 = 0"
  by (simp_all add: nr_s3_def nr_s0_def box_s0_def)



lemma nr_outer0:
  "outer_iteration (ctx_box settings_norefine) 0 nr_s0 =
     bind_err (primal_dual_newton_semi_smooth (ctx_box settings_norefine) 0 nr_s3)
       (\<lambda>(e, k, s4). Inr (after_inner (ctx_box settings_norefine) 0 s4))"
  by (simp add: outer_iteration_def unscaled_primal_residual_def unscaled_dual_residual_def
      shift_residuals_def is_primal_feasible_def is_dual_feasible_def nr_simps vec_eval_defs
      Let_def nr_s0_fields nr_s3_def nr_s0_def box_s0_def)

lemma nr_active:
  "active_set_change (ctx_box settings_norefine) nr_s3 [False] = Inr nr_s3"
  by (simp add: active_set_change_def active_set_step_def bind_err_def nr_simps nr_s3_fields
      Let_def)

lemma nr_newton_dw: "newton_dw (ctx_box settings_norefine) nr_s3 = [0, 0]"
  by (simp add: newton_dw_def ldl_solve_in_place_def ldl_iter_solve_noalias_def nr_simps
      numeral_2_eq_2)


















section \<open>The breakpoints of the line search\<close>

lemma set_fl_insort: "set (fl_insort a xs) = insert a (set xs)"
  by (induction xs) auto

lemma set_fl_sort: "set (fl_sort xs) = set xs"
  by (induction xs) (simp_all add: fl_sort_def set_fl_insort)

lemma fl_lt_zero_div:
  "fl_lt (Fin 0) (fl_div (Fin x) (Fin y)) \<longleftrightarrow> (if y \<noteq> 0 then 0 < x / y else 0 < x)"
  by (simp add: fl_inf_def)

lemma fl_div_pos:
  "fl_lt (Fin 0) (fl_div (Fin x) (Fin y))
   \<Longrightarrow> fl_div (Fin x) (Fin y) = (if y \<noteq> 0 then Fin (x / y) else PInf)"
  by (simp add: fl_inf_def split: if_splits)

lemma mem_filter_pair: "a \<in> set (filter P [x, y]) \<longleftrightarrow> (a = x \<or> a = y) \<and> P a"
  by auto

lemma mem_collect_alphas:
  "a \<in> set (collect_alphas n_in r_lo r_up Cdx) \<longleftrightarrow>
        (\<exists>i<n_in. (a = fl_div (Fin (- r_lo ! i)) (Fin (Cdx ! i))
                    \<or> a = fl_div (Fin (- r_up ! i)) (Fin (Cdx ! i))) \<and> fl_lt (Fin 0) a)"
  unfolding collect_alphas_def alpha_candidates_def
  by (simp del: filter.simps fl_div.simps fl_lt.simps add: Bex_def) blast

lemma set_collect_alphas:
  "set (collect_alphas n_in r_lo r_up Cdx) =
     {Fin q |q i. i < n_in \<and> Cdx ! i \<noteq> 0
                \<and> (q = - r_lo ! i / Cdx ! i \<or> q = - r_up ! i / Cdx ! i) \<and> 0 < q}
     \<union> {PInf |i. i < n_in \<and> Cdx ! i = 0 \<and> (r_lo ! i < 0 \<or> r_up ! i < 0)}"
  (is "?L = ?A \<union> ?B")
proof (rule set_eqI)
  fix a
  show "a \<in> ?L \<longleftrightarrow> a \<in> ?A \<union> ?B"
  proof
    assume "a \<in> ?L"
    then obtain i where i: "i < n_in"
      and a: "a = fl_div (Fin (- r_lo ! i)) (Fin (Cdx ! i))
              \<or> a = fl_div (Fin (- r_up ! i)) (Fin (Cdx ! i))"
      and p: "fl_lt (Fin 0) a" unfolding mem_collect_alphas by blast
    show "a \<in> ?A \<union> ?B"
    proof (cases "Cdx ! i = 0")
      case True
      from a p True have "a = PInf \<and> (r_lo ! i < 0 \<or> r_up ! i < 0)"
        by (elim disjE) (simp_all add: fl_inf_def split: if_splits)
      with i True have "a \<in> ?B" by blast
      then show ?thesis ..
    next
      case False
      from a p False
      have "\<exists>q. a = Fin q \<and> (q = - r_lo ! i / Cdx ! i \<or> q = - r_up ! i / Cdx ! i) \<and> 0 < q"
        by (elim disjE) simp_all
      with i False have "a \<in> ?A" by blast
      then show ?thesis ..
    qed
  next
    assume "a \<in> ?A \<union> ?B"
    then show "a \<in> ?L"
    proof
      assume "a \<in> ?A"
      then obtain q i where h: "a = Fin q" "i < n_in" "Cdx ! i \<noteq> 0"
        "q = - r_lo ! i / Cdx ! i \<or> q = - r_up ! i / Cdx ! i" "0 < q" by blast
      from h(1,3,4,5) have "(a = fl_div (Fin (- r_lo ! i)) (Fin (Cdx ! i))
                    \<or> a = fl_div (Fin (- r_up ! i)) (Fin (Cdx ! i))) \<and> fl_lt (Fin 0) a"
        by (elim disjE) simp_all
      with h(2) show ?thesis unfolding mem_collect_alphas by blast
    next
      assume "a \<in> ?B"
      then obtain i where h: "a = PInf" "i < n_in" "Cdx ! i = 0" "r_lo ! i < 0 \<or> r_up ! i < 0"
        by blast
      from h(1,3,4) have "(a = fl_div (Fin (- r_lo ! i)) (Fin (Cdx ! i))
                    \<or> a = fl_div (Fin (- r_up ! i)) (Fin (Cdx ! i))) \<and> fl_lt (Fin 0) a"
        by (elim disjE) (simp_all add: fl_inf_def)
      with h(2) show ?thesis unfolding mem_collect_alphas by blast
    qed
  qed
qed

lemma set_breakpoints:
  "set (breakpoints n_in r_lo r_up Cdx) = set (collect_alphas n_in r_lo r_up Cdx)"
  by (simp add: breakpoints_def set_fl_sort)


text \<open>
  C7: in a line search the breakpoints are the strictly positive quotients
  \<open>-r_lo[i] / (C dx)[i]\<close> and \<open>-r_up[i] / (C dx)[i]\<close> of the inequalities with a nonzero
  denominator, and \<open>+infinity\<close> as soon as an inequality with a zero denominator has a
  negative \<open>r_lo[i]\<close> or \<open>r_up[i]\<close>: the quotients are formed without a test on the
  denominator. When there is no breakpoint, or the first one is above 1, the step
  length is 1.
\<close>

theorem breakpoint_candidates:
  "set (breakpoints (c_n_in c) (primal_residual_in_scaled_lo s)
          (primal_residual_in_scaled_up s) (d_Cdx d))
   = {Fin q |q i. i < c_n_in c \<and> d_Cdx d ! i \<noteq> 0
                \<and> (q = - primal_residual_in_scaled_lo s ! i / d_Cdx d ! i
                    \<or> q = - primal_residual_in_scaled_up s ! i / d_Cdx d ! i)
                \<and> 0 < q}
     \<union> {PInf |i. i < c_n_in c \<and> d_Cdx d ! i = 0
                \<and> (primal_residual_in_scaled_lo s ! i < 0
                    \<or> primal_residual_in_scaled_up s ! i < 0)}
   \<and> (breakpoints (c_n_in c) (primal_residual_in_scaled_lo s)
          (primal_residual_in_scaled_up s) (d_Cdx d) = []
        \<or> \<not> fl_le (hd (breakpoints (c_n_in c) (primal_residual_in_scaled_lo s)
                          (primal_residual_in_scaled_up s) (d_Cdx d))) (Fin 1)
       \<longrightarrow> line_search c s d = Fin 1)"
  by (auto simp only: set_breakpoints set_collect_alphas line_search_def Let_def
      split: if_splits)

lemma box_breakpoints:
  "breakpoints (c_n_in (ctx_box settings_default)) (primal_residual_in_scaled_lo box_s3a)
     (primal_residual_in_scaled_up box_s3a) (d_Cdx box_dir)
   = [Fin (1089000087999999 / 989999890000000), Fin (1111000112000001 / 989999890000000)]"
  by (simp add: breakpoints_def collect_alphas_def alpha_candidates_def fl_sort_def fl_le_def
      fl_eq_def box_simps box_s3a_fields box_dir_fields)

lemma box_line_search: "line_search (ctx_box settings_default) box_s3a box_dir = Fin 1"
  using box_alpha by (simp add: newton_alpha_def box_newton_dw box_direction box_simps)

theorem breakpoint_candidates_witness:
  "{Fin q |q i. i < c_n_in (ctx_box settings_default) \<and> d_Cdx box_dir ! i \<noteq> 0
              \<and> (q = - primal_residual_in_scaled_lo box_s3a ! i / d_Cdx box_dir ! i
                  \<or> q = - primal_residual_in_scaled_up box_s3a ! i / d_Cdx box_dir ! i)
              \<and> 0 < q}
     \<union> {PInf |i. i < c_n_in (ctx_box settings_default) \<and> d_Cdx box_dir ! i = 0
              \<and> (primal_residual_in_scaled_lo box_s3a ! i < 0
                  \<or> primal_residual_in_scaled_up box_s3a ! i < 0)}
   = set [Fin (1089000087999999 / 989999890000000), Fin (1111000112000001 / 989999890000000)]
   \<and> line_search (ctx_box settings_default) box_s3a box_dir = Fin 1"
proof -
  note th = breakpoint_candidates[of "ctx_box settings_default" box_s3a box_dir]
  from th[THEN conjunct1, unfolded box_breakpoints, symmetric] box_line_search
  show ?thesis by (rule conjI)
qed

text \<open>
  In the first inner iteration on the box problem without iterative refinement the
  step \<open>dx\<close> is zero, so the denominator of the only inequality is zero, and the
  breakpoint \<open>+infinity\<close> is collected for it.
\<close>

theorem breakpoint_counterexample:
  "vars_box settings_norefine = nr_s0
   \<and> outer_iteration (ctx_box settings_norefine) 0 nr_s0
       = bind_err (primal_dual_newton_semi_smooth (ctx_box settings_norefine) 0 nr_s3)
           (\<lambda>(e, k, s4). Inr (after_inner (ctx_box settings_norefine) 0 s4))
   \<and> active_set_change (ctx_box settings_norefine) nr_s3 [False] = Inr nr_s3
   \<and> primal_residual_in_scaled_lo nr_s3 = [1]
   \<and> primal_residual_in_scaled_up nr_s3 = [- 1]
   \<and> d_Cdx (newton_direction (ctx_box settings_norefine) nr_s3
              (newton_dw (ctx_box settings_norefine) nr_s3)) = [0]
   \<and> collect_alphas (c_n_in (ctx_box settings_norefine)) [1] [- 1] [0] = [PInf]
   \<and> breakpoints (c_n_in (ctx_box settings_norefine)) (primal_residual_in_scaled_lo nr_s3)
        (primal_residual_in_scaled_up nr_s3)
        (d_Cdx (newton_direction (ctx_box settings_norefine) nr_s3
                  (newton_dw (ctx_box settings_norefine) nr_s3))) = [PInf]"
  using nr_initial nr_outer0 nr_active
  by (simp add: nr_newton_dw newton_direction_def breakpoints_def collect_alphas_def
      alpha_candidates_def fl_sort_def fl_inf_def nr_simps nr_s3_fields vec_eval_defs Let_def)

section \<open>Iterative refinement\<close>



lemma refine_sol_numeral:
  "refine_sol c s rhs (numeral k) =
     (case kkt_residual c s rhs (refine_sol c s rhs (pred_numeral k)) (pred_numeral k) of
        (err_x, err_y, err_z) \<Rightarrow>
          vsub (refine_sol c s rhs (pred_numeral k))
            (k_ldl_solve (c_kernel c) (ldl s) (err_x @ err_y @ err_z)))"
  by (subst numeral_eq_Suc) (rule refine_sol.simps(2))












section \<open>The assertion of add_row\<close>

lemma list_all_upt: "list_all P [0..<n] \<longleftrightarrow> (\<forall>i<n. P i)"
  by (auto simp: list_all_iff)

lemma ldl_counts_length [simp]: "length (ldl_counts k cnt) = length cnt"
  by (simp add: ldl_counts_def)



lemma same_slots_refl [simp]: "same_slots s s"
  by (simp add: same_slots_def)

lemma same_slots_trans: "same_slots s s' \<Longrightarrow> same_slots s' s'' \<Longrightarrow> same_slots s s''"
  by (simp add: same_slots_def)







lemma take_step_slots [simp]: "same_slots s (take_step c s d alpha)"
  by (simp add: same_slots_def take_step_def)
















lemma add_row_precondition:
  assumes "slots_ok c s" and "i < c_n_in c" and "\<not> active_constraints s ! i"
  shows "ld_nnz_counts (ldl s) ! i = 1"
  using assms by (auto simp: slots_ok_def list_all_upt)

end
